theory Spec2Isabelle
  imports Main "HOL-Library.AList"
begin

section \<open>The query execution runtime of llx (llx\_v1.go)\<close>

text \<open>
  A shallow embedding of \<^verbatim>\<open>src/llx/llx_v1.go\<close>: the dependency graph
  \<^verbatim>\<open>CallsV1\<close>, the result cache \<^verbatim>\<open>CacheV1\<close> and the executor
  \<^verbatim>\<open>LeiseExecutorV1\<close> with its chain walk, forward propagation, block
  evaluation and teardown.

  Conventions of the embedding.
  \<^item> A ref is a Go \<^verbatim>\<open>int32\<close>. It is modelled as \<open>int\<close>: refs are only compared,
    used as map keys and turned into an index by \<^verbatim>\<open>ref-1\<close>; the index is checked
    against the bounds of the slice, as Go does.
  \<^item> A Go pointer that may be nil is an \<open>option\<close>; dereferencing nil is the abort
    \<open>Panic\<close>.
  \<^item> The locks of \<^verbatim>\<open>CallsV1\<close> and \<^verbatim>\<open>sync.Map\<close> are not modelled: every function
    below is one sequential call.
\<close>

subsection \<open>Values\<close>

type_synonym ref = int

text \<open>
  Go errors. \<open>ErrorString\<close> is what \<^verbatim>\<open>errors.New\<close> builds, \<open>NotReadyError\<close> is
  \<^verbatim>\<open>lumi.NotReadyError\<close> (the only error type the executor tests for), and
  \<open>MultiError\<close> is the list kept by go-multierror.
\<close>

datatype error = ErrorString string | NotReadyError string | MultiError "error list"

text \<open>The type assertion \<^verbatim>\<open>err.(lumi.NotReadyError)\<close>.\<close>

fun isNotReadyError :: "error \<Rightarrow> bool" where
  "isNotReadyError (NotReadyError m) = True"
| "isNotReadyError e = False"

text \<open>
  \<^verbatim>\<open>multierror.Append(err, e)\<close> of the go-multierror library: the result is always a
  multi-error; a multi-error argument is flattened one level.
\<close>

fun multierror_parts :: "error \<Rightarrow> error list" where
  "multierror_parts (MultiError es) = es"
| "multierror_parts e = [e]"

fun multierror_Append :: "error option \<Rightarrow> error \<Rightarrow> error" where
  "multierror_Append None e = MultiError (multierror_parts e)"
| "multierror_Append (Some a) e = MultiError (multierror_parts a @ multierror_parts e)"

text \<open>
  Modelled from the spec: the package \<^verbatim>\<open>types\<close> is not under src/. Only the constants
  and tests the executor uses are kept: \<^verbatim>\<open>types.Unset\<close>, \<^verbatim>\<open>types.Nil\<close>,
  \<^verbatim>\<open>types.Block\<close>, \<^verbatim>\<open>types.Resource(name)\<close>, function types, and every other type
  under \<open>OtherType\<close>. \<open>ZeroType\<close> is the Go zero value of a \<^verbatim>\<open>Type\<close> field that a
  struct literal leaves out; the source does not show whether it coincides with
  \<^verbatim>\<open>types.Unset\<close>, so it is kept apart.
\<close>

datatype Type = ZeroType | Unset | Nil | Block | Resource string | FunctionType | OtherType string

fun IsResource :: "Type \<Rightarrow> bool" where
  "IsResource (Resource name) = True"
| "IsResource t = False"

fun IsFunction :: "Type \<Rightarrow> bool" where
  "IsFunction FunctionType = True"
| "IsFunction t = False"

text \<open>
  \<^verbatim>\<open>RawData\<close>: a type, a payload (\<^verbatim>\<open>interface{}\<close>) and an optional error. The
  payloads the executor looks into are nil, a resource (a value for which the assertion
  \<^verbatim>\<open>.(lumi.ResourceType)\<close> succeeds) and the field map of a block
  (\<^verbatim>\<open>map[string]interface{}\<close> whose entries are \<^verbatim>\<open>*RawData\<close>, kept as an
  association list, first entry of a key wins); anything else is \<open>OtherValue\<close>.
\<close>

datatype RawData = RawData (Type: Type) (Value: Value) (Error: "error option")
  and Value = NilValue | ResourceValue string | MapValue "(string \<times> RawData option) list"
    | OtherValue string

record stepCache =
  Result :: "RawData option"
  IsStatic :: bool

record RawResult =
  Data :: "RawData option"
  CodeID :: string


subsection \<open>Programs\<close>

text \<open>
  The generated protobuf types are not under src/; the fields below are the ones the
  executor reads. A \<^verbatim>\<open>Primitive\<close> is opaque to this file apart from its type.
\<close>

record Primitive =
  PrimType :: Type
  PrimValue :: string

record Function =
  DeprecatedV5Binding :: ref
  Args :: "Primitive option list"

datatype Chunk_Call = Chunk_PRIMITIVE | Chunk_FUNCTION | Chunk_PROPERTY | Chunk_unknown int

record Chunk =
  Call :: Chunk_Call
  ChunkId :: string
  Primitive :: "Primitive option"
  Function :: "Function option"

datatype CodeV1 = CodeV1
  (Code: "Chunk option list")
  (Entrypoints: "ref list")
  (Datapoints: "ref list")
  (Checksums: "(ref \<times> string) list")
  (Functions: "CodeV1 option list")
  (SingleValue: bool)

text \<open>
  A Go map that is ranged over or counted is an association list in which the first
  entry of a key is the one that counts: \<open>map_of\<close> reads it, \<open>AList.update\<close> writes it,
  \<open>map_keys\<close> are its keys and \<open>map_len\<close> is \<^verbatim>\<open>len(m)\<close>.
\<close>

definition map_keys :: "('k \<times> 'v) list \<Rightarrow> 'k list" where
  "map_keys m = remdups (map fst m)"

definition map_len :: "('k \<times> 'v) list \<Rightarrow> nat" where
  "map_len m = length (map_keys m)"

text \<open>\<^verbatim>\<open>code.Checksums[ref]\<close>: the empty string when the key is missing.\<close>

definition Checksum :: "CodeV1 \<Rightarrow> ref \<Rightarrow> string" where
  "Checksum code r = (case map_of (Checksums code) r of None \<Rightarrow> [] | Some s \<Rightarrow> s)"

text \<open>\<^verbatim>\<open>strconv.FormatInt(int64(ref), 10)\<close>.\<close>

fun digits :: "nat \<Rightarrow> string" where
  "digits n = (if n < 10 then [''0123456789'' ! n]
               else digits (n div 10) @ [''0123456789'' ! (n mod 10)])"

declare digits.simps [simp del]

definition FormatInt :: "int \<Rightarrow> string" where
  "FormatInt i = (if i < 0 then ''-'' @ digits (nat (- i)) else digits (nat i))"

subsection \<open>The dependency graph CallsV1\<close>

type_synonym CallsV1 = "ref \<rightharpoonup> ref list"

text \<open>
  \<^verbatim>\<open>Store\<close> returns the updated graph with the flag: \<open>True\<close> when the connection
  already exists (the graph is returned as it was), \<open>False\<close> when it is new.
\<close>

definition CallsV1_Store :: "CallsV1 \<Rightarrow> ref \<Rightarrow> ref \<Rightarrow> bool \<times> CallsV1" where
  "CallsV1_Store c k v =
     (let calls = (case c k of None \<Rightarrow> [] | Some xs \<Rightarrow> xs)
      in if v \<in> set calls then (True, c)
         else (False, c(k \<mapsto> calls @ [v])))"

definition CallsV1_Load :: "CallsV1 \<Rightarrow> ref \<Rightarrow> ref list \<times> bool" where
  "CallsV1_Load c k = (case c k of None \<Rightarrow> ([], False) | Some v \<Rightarrow> (v, True))"

text \<open>
  The graphs an executor can hold: \<^verbatim>\<open>NewExecutorV1\<close> creates the empty one, and
  \<^verbatim>\<open>Store\<close> is the only function that writes to the private field \<^verbatim>\<open>calls\<close>.
\<close>

inductive CallsV1_built :: "CallsV1 \<Rightarrow> bool" where
  empty: "CallsV1_built Map.empty"
| Store: "CallsV1_built c \<Longrightarrow> CallsV1_built (snd (CallsV1_Store c k v))"

code_pred CallsV1_built .



subsection \<open>The result cache CacheV1\<close>

text \<open>
  A \<^verbatim>\<open>sync.Map\<close> from refs to \<^verbatim>\<open>*stepCache\<close>; the pointer may be nil (the
  step-tracker stores nothing else).
\<close>

type_synonym CacheV1 = "ref \<rightharpoonup> stepCache option"

definition CacheV1_Store :: "CacheV1 \<Rightarrow> ref \<Rightarrow> stepCache option \<Rightarrow> CacheV1" where
  "CacheV1_Store c k v = c(k \<mapsto> v)"

definition CacheV1_Load :: "CacheV1 \<Rightarrow> ref \<Rightarrow> stepCache option \<times> bool" where
  "CacheV1_Load c k = (case c k of None \<Rightarrow> (None, False) | Some res \<Rightarrow> (res, True))"

subsection \<open>The executor\<close>

text \<open>
  The field \<^verbatim>\<open>callback\<close> is assigned in two places only: \<^verbatim>\<open>NewExecutorV1\<close> stores
  the \<^verbatim>\<open>ResultCallback\<close> it is given, and \<^verbatim>\<open>Unregister\<close> replaces it with a
  function that only logs. The field therefore holds one of two values. The callback
  given at construction acts on what lies outside the executor, so it is a parameter of
  the functions below (\<open>ResultCallback\<close> of the environment).
\<close>

datatype callback = Registered | Decommissioned

datatype Runtime = Runtime string

record LeiseExecutorV1_fields =
  exec_id :: string
  watcherIds :: "string list"
  runtime :: Runtime
  code :: CodeV1
  entrypoints :: "ref set"
  callbackPoints :: "(ref \<times> string) list"
  callback :: callback
  cache :: CacheV1
  stepTracker :: CacheV1
  calls :: CallsV1
  starts :: "ref list"
  props :: "string \<rightharpoonup> Primitive option"

text \<open>
  The executor owns its block executors, so the type is recursive: the fields that are
  not executors are a record, \<^verbatim>\<open>blockExecutors\<close> is the list of children.
\<close>

datatype LeiseExecutorV1 = LeiseExecutorV1
  (exec: LeiseExecutorV1_fields)
  (blockExecutors: "LeiseExecutorV1 list")

definition upd :: "(LeiseExecutorV1_fields \<Rightarrow> LeiseExecutorV1_fields) \<Rightarrow> LeiseExecutorV1 \<Rightarrow> LeiseExecutorV1" where
  "upd f c = LeiseExecutorV1 (f (exec c)) (blockExecutors c)"

subsection \<open>Aborts, state and the environment\<close>

text \<open>
  A call either returns or aborts: with a Go panic, or because the fuel that bounds the
  loop of the chain walk ran out (the loop need not end: a graph may hold a cycle).
\<close>

datatype abort = Panic string | OutOfFuel

definition andThen :: "abort + 'a \<Rightarrow> ('a \<Rightarrow> abort + 'b) \<Rightarrow> abort + 'b" where
  "andThen m f = (case m of Inl a \<Rightarrow> Inl a | Inr x \<Rightarrow> f x)"

fun forEach :: "('a \<Rightarrow> 's \<Rightarrow> abort + 's) \<Rightarrow> 'a list \<Rightarrow> 's \<Rightarrow> abort + 's" where
  "forEach f [] s = Inr s"
| "forEach f (x # xs) s = andThen (f x s) (forEach f xs)"

text \<open>
  The state is the executor together with the world \<open>'w\<close> outside it, which the
  callback and the provider act on. What a chunk evaluation returns is the Go triple
  \<^verbatim>\<open>(*RawData, int32, error)\<close>.
\<close>

type_synonym 'w state = "LeiseExecutorV1 \<times> 'w"
type_synonym result3 = "RawData option \<times> ref \<times> error option"
type_synonym ('w, 'a) action = "'w state \<Rightarrow> abort + ('a \<times> 'w state)"

text \<open>
  The environment: the callback given to \<^verbatim>\<open>NewExecutorV1\<close>, and the functions and
  variables of the package and of the provider that \<^verbatim>\<open>llx_v1.go\<close> calls and that are
  not under src/. They are parameters: nothing is assumed about them.
\<close>

record 'w env =
  ResultCallback :: "RawResult \<Rightarrow> 'w \<Rightarrow> abort + 'w"
  resolveValue :: "Primitive option \<Rightarrow> ref \<Rightarrow> ('w, result3) action"
  runBoundFunctionV1 :: "RawData option \<Rightarrow> Chunk \<Rightarrow> ref \<Rightarrow> ('w, result3) action"
  handleGlobalV1 :: "string \<Rightarrow> (Function \<Rightarrow> ref \<Rightarrow> ('w, result3) action) option \<times> bool"
  args2resourceargsV1 :: "ref \<Rightarrow> Primitive option list \<Rightarrow> ('w, Value list \<times> ref \<times> error option) action"
  CreateResource :: "string \<Rightarrow> Value list \<Rightarrow> ('w, Value \<times> error option) action"
  errorResult :: "error \<Rightarrow> string \<Rightarrow> RawResult"
  errorResultMsg :: "string \<Rightarrow> string \<Rightarrow> RawResult"
  RefV1 :: "Primitive \<Rightarrow> ref \<times> bool"
  emptyFunction :: Function

text \<open>\<^verbatim>\<open>c.callback(r)\<close>.\<close>

definition call_callback :: "'w env \<Rightarrow> RawResult \<Rightarrow> 'w state \<Rightarrow> abort + 'w state" where
  "call_callback env r st =
     (case st of (c, w) \<Rightarrow>
        (case callback (exec c) of
           Registered \<Rightarrow> andThen (ResultCallback env r w) (\<lambda>w'. Inr (c, w'))
         | Decommissioned \<Rightarrow> Inr (c, w)))"

text \<open>\<^verbatim>\<open>c.cache.Store(k, &sc)\<close> and \<^verbatim>\<open>c.stepTracker.Store(k, nil)\<close>.\<close>

definition cache_Store :: "ref \<Rightarrow> stepCache \<Rightarrow> 'w state \<Rightarrow> 'w state" where
  "cache_Store k sc st =
     (case st of (c, w) \<Rightarrow> (upd (\<lambda>e. e\<lparr>cache := CacheV1_Store (cache e) k (Some sc)\<rparr>) c, w))"

definition stepTracker_Store :: "ref \<Rightarrow> 'w state \<Rightarrow> 'w state" where
  "stepTracker_Store k st =
     (case st of (c, w) \<Rightarrow> (upd (\<lambda>e. e\<lparr>stepTracker := CacheV1_Store (stepTracker e) k None\<rparr>) c, w))"



subsection \<open>Evaluating one chunk\<close>

text \<open>\<^verbatim>\<open>connectRef\<close>: connect references, calling \<open>dst\<close> if \<open>src\<close> is updated.\<close>

definition connectRef :: "ref \<Rightarrow> ref \<Rightarrow> ('w, result3) action" where
  "connectRef src dst st =
     (case st of (c, w) \<Rightarrow>
        (case CallsV1_Store (calls (exec c)) src dst of (exists, g) \<Rightarrow>
           (let st' = (upd (\<lambda>e. e\<lparr>calls := g\<rparr>) c, w)
            in if exists then Inr ((None, 0, None), st')
               else Inr ((None, src, None), st'))))"

definition createResource :: "'w env \<Rightarrow> string \<Rightarrow> Function \<Rightarrow> ref \<Rightarrow> ('w, result3) action" where
  "createResource env name f ref st =
     andThen (args2resourceargsV1 env ref (Args f) st) (\<lambda>((args, rref, err), st1).
       if err \<noteq> None \<or> rref \<noteq> 0 then Inr ((None, rref, err), st1)
       else andThen (CreateResource env name args st1) (\<lambda>((resource, err), st2).
         (case err of
            Some e \<Rightarrow>
              if \<not> isNotReadyError e
              then Inr ((None, 0, Some e),
                     cache_Store ref \<lparr>Result = Some (RawData (Resource name) NilValue (Some e)),
                                      IsStatic = True\<rparr> st2)
              else Inr ((None, 0, Some e), st2)
          | None \<Rightarrow>
              (let res = \<lparr>Result = Some (RawData (Resource name) resource None), IsStatic = True\<rparr>
               in Inr ((Result res, 0, None), cache_Store ref res st2)))))"

definition runGlobalFunction :: "'w env \<Rightarrow> Chunk \<Rightarrow> Function \<Rightarrow> ref \<Rightarrow> ('w, result3) action" where
  "runGlobalFunction env chunk f ref st =
     (case handleGlobalV1 env (ChunkId chunk) of
        (h, True) \<Rightarrow>
          (case h of
             None \<Rightarrow> Inr ((None, 0, Some (ErrorString (''found function '' @ ChunkId chunk @
                       '' but no handler. this should not happen and points to an implementation error''))), st)
           | Some handler \<Rightarrow>
               andThen (handler f ref st) (\<lambda>((res, dref, err), st1).
                 Inr ((res, dref, err),
                      (if res \<noteq> None then cache_Store ref \<lparr>Result = res, IsStatic = False\<rparr> st1
                       else st1))))
      | (h, False) \<Rightarrow> createResource env (ChunkId chunk) f ref st)"

definition runFunction :: "'w env \<Rightarrow> Chunk \<Rightarrow> ref \<Rightarrow> ('w, result3) action" where
  "runFunction env chunk ref st =
     (let f = (case Function chunk of None \<Rightarrow> emptyFunction env | Some f \<Rightarrow> f)
      in if DeprecatedV5Binding f = 0 then runGlobalFunction env chunk f ref st
         else (case CacheV1_Load (cache (exec (fst st))) (DeprecatedV5Binding f) of
                 (res, False) \<Rightarrow> connectRef (DeprecatedV5Binding f) ref st
               | (None, True) \<Rightarrow> Inl (Panic ''nil pointer dereference'')
               | (Some sc, True) \<Rightarrow>
                   (case Result sc of
                      None \<Rightarrow> Inl (Panic ''nil pointer dereference'')
                    | Some r \<Rightarrow>
                        (case Error r of
                           Some e \<Rightarrow> Inr ((None, 0, Some e),
                                         cache_Store ref \<lparr>Result = Result sc, IsStatic = False\<rparr> st)
                         | None \<Rightarrow> runBoundFunctionV1 env (Result sc) chunk ref st))))"

text \<open>\<^verbatim>\<open>chunk.Call.String()\<close> of a value outside the enumeration is its number.\<close>

definition runChunk :: "'w env \<Rightarrow> Chunk \<Rightarrow> ref \<Rightarrow> ('w, result3) action" where
  "runChunk env chunk ref st =
     (case Call chunk of
        Chunk_PRIMITIVE \<Rightarrow>
          andThen (resolveValue env (Primitive chunk) ref st) (\<lambda>((res, dref, err), st1).
            Inr ((res, dref, err),
                 (if res \<noteq> None then cache_Store ref \<lparr>Result = res, IsStatic = False\<rparr> st1
                  else if err \<noteq> None
                  then cache_Store ref \<lparr>Result = Some (RawData ZeroType NilValue err),
                                        IsStatic = False\<rparr> st1
                  else st1)))
      | Chunk_FUNCTION \<Rightarrow> runFunction env chunk ref st
      | Chunk_PROPERTY \<Rightarrow>
          (case props (exec (fst st)) (ChunkId chunk) of
             None \<Rightarrow> Inr ((None, 0, Some (ErrorString (''cannot find property '' @ [CHR 0x27] @
                       ChunkId chunk @ [CHR 0x27]))), st)
           | Some property \<Rightarrow>
               andThen (resolveValue env property ref st) (\<lambda>((res, dref, err), st1).
                 if dref \<noteq> 0 \<or> err \<noteq> None then Inr ((res, dref, err), st1)
                 else Inr ((res, dref, err), cache_Store ref \<lparr>Result = res, IsStatic = False\<rparr> st1)))
      | Chunk_unknown n \<Rightarrow>
          Inr ((None, 0, Some (ErrorString (''Tried to run a chunk which has an unknown type: '' @
                 FormatInt n))), st))"

definition runRef :: "'w env \<Rightarrow> ref \<Rightarrow> ('w, result3) action" where
  "runRef env ref st =
     (let chunks = Code (code (exec (fst st)))
      in if ref - 1 < 0 \<or> int (length chunks) \<le> ref - 1
         then Inl (Panic ''index out of range'')
         else (case chunks ! nat (ref - 1) of
                 None \<Rightarrow> Inr ((None, 0, Some (ErrorString (''Called a chunk that doesn'' @ [CHR 0x27] @
                           ''t exist, ref = '' @ FormatInt ref))), st)
               | Some chunk \<Rightarrow> runChunk env chunk ref st))"

subsection \<open>The chain walk\<close>

text \<open>
  One pass through the body of the loop of \<^verbatim>\<open>runChain\<close> is \<open>runChain_step\<close>. It is
  made of the three parts of the body: \<open>runChain_eval\<close> (the cache is read, or the chunk
  is run), \<open>runChain_report\<close> (the callback is called and an error is cached) and
  \<open>runChain_next\<close> (the next ref and the remaining refs; \<open>None\<close> is the
  \<^verbatim>\<open>break\<close>).
\<close>

definition runChain_eval :: "'w env \<Rightarrow> ref \<Rightarrow> ('w, result3) action" where
  "runChain_eval env curRef st =
     (case CacheV1_Load (cache (exec (fst st))) curRef of
        (cached, True) \<Rightarrow>
          (case cached of
             None \<Rightarrow> Inl (Panic ''nil pointer dereference'')
           | Some sc \<Rightarrow> Inr ((Result sc, 0, None), st))
      | (cached, False) \<Rightarrow> runRef env curRef st)"

definition runChain_report :: "'w env \<Rightarrow> ref \<Rightarrow> RawData option \<Rightarrow> error option \<Rightarrow> 'w state \<Rightarrow> abort + 'w state" where
  "runChain_report env curRef res err st =
     (if res \<noteq> None then
        (case map_of (callbackPoints (exec (fst st))) curRef of
           Some codeID \<Rightarrow> call_callback env \<lparr>Data = res, CodeID = codeID\<rparr> st
         | None \<Rightarrow> Inr st)
      else
        (case err of
           None \<Rightarrow> Inr st
         | Some e \<Rightarrow>
             andThen
               (case map_of (callbackPoints (exec (fst st))) curRef of
                  Some codeID \<Rightarrow> call_callback env (errorResult env e codeID) st
                | None \<Rightarrow> Inr st)
               (\<lambda>st1.
                  if \<not> isNotReadyError e then
                    (if fst (CacheV1_Load (cache (exec (fst st1))) curRef) = None
                     then Inr (cache_Store curRef
                                 \<lparr>Result = Some (RawData Unset NilValue (Some e)), IsStatic = False\<rparr> st1)
                     else Inr st1)
                  else Inr st1)))"

definition runChain_next :: "ref \<Rightarrow> ref \<Rightarrow> ref list \<Rightarrow> 'w state \<Rightarrow> (ref \<times> ref list) option" where
  "runChain_next curRef nextRef remaining st =
     (if nextRef = 0 then
        (let nextRefs = fst (CallsV1_Load (calls (exec (fst st))) curRef)
         in if length nextRefs \<noteq> 0 then Some (hd nextRefs, remaining @ tl nextRefs)
            else if length remaining = 0 then None
            else Some (hd remaining, tl remaining))
      else Some (nextRef, remaining))"

definition runChain_step :: "'w env \<Rightarrow> ref \<Rightarrow> ref list \<Rightarrow> 'w state \<Rightarrow> abort + ('w state \<times> (ref \<times> ref list) option)" where
  "runChain_step env curRef remaining st =
     andThen (runChain_eval env curRef (stepTracker_Store curRef st)) (\<lambda>((res, nextRef, err), st1).
       if res = None \<and> nextRef = 0 \<and> err = None then Inr (st1, None)
       else andThen (runChain_report env curRef res err st1) (\<lambda>st2.
              Inr (st2, runChain_next curRef nextRef remaining st2)))"

fun runChain_loop :: "'w env \<Rightarrow> nat \<Rightarrow> ref \<Rightarrow> ref list \<Rightarrow> 'w state \<Rightarrow> abort + 'w state" where
  "runChain_loop env 0 nextRef remaining st = (if nextRef = 0 then Inr st else Inl OutOfFuel)"
| "runChain_loop env (Suc n) nextRef remaining st =
     (if nextRef = 0 then Inr st
      else (case runChain_step env nextRef remaining st of
              Inl a \<Rightarrow> Inl a
            | Inr (st', None) \<Rightarrow> Inr st'
            | Inr (st', Some (nextRef', remaining')) \<Rightarrow> runChain_loop env n nextRef' remaining' st'))"

definition runChain :: "'w env \<Rightarrow> nat \<Rightarrow> ref \<Rightarrow> 'w state \<Rightarrow> abort + 'w state" where
  "runChain env fuel start st = runChain_loop env fuel start [] st"

subsection \<open>Forward propagation and Run\<close>

definition triggerChain :: "'w env \<Rightarrow> nat \<Rightarrow> ref \<Rightarrow> RawData option \<Rightarrow> 'w state \<Rightarrow> abort + 'w state" where
  "triggerChain env fuel ref data st =
     andThen
       (case map_of (callbackPoints (exec (fst st))) ref of
          Some codeID \<Rightarrow> call_callback env \<lparr>Data = data, CodeID = codeID\<rparr> st
        | None \<Rightarrow> Inr st)
       (\<lambda>st1.
          (case CallsV1_Load (calls (exec (fst st1))) ref of
             (nxt, True) \<Rightarrow>
               if length nxt = 0
               then Inl (Panic ''internal state error: cannot trigger next call on chain because it points to a zero ref'')
               else forEach (runChain env fuel) nxt st1
           | (nxt, False) \<Rightarrow>
               (let codeID = (case map_of (callbackPoints (exec (fst st1))) ref of
                                None \<Rightarrow> [] | Some i \<Rightarrow> i)
                in (case CacheV1_Load (cache (exec (fst st1))) ref of
                      (res, False) \<Rightarrow>
                        call_callback env
                          (errorResultMsg env (''exec> cannot find results to chunk reference '' @
                             FormatInt ref) codeID) st1
                    | (None, True) \<Rightarrow> Inl (Panic ''nil pointer dereference'')
                    | (Some sc, True) \<Rightarrow>
                        call_callback env \<lparr>Data = Result sc, CodeID = codeID\<rparr> st1))))"

text \<open>
  \<^verbatim>\<open>Run\<close>: the keys of \<^verbatim>\<open>callbackPoints\<close>, sorted by \<^verbatim>\<open>sort.Slice\<close> with
  \<^verbatim>\<open>refs[i] > refs[j]\<close>, are walked in that order.
\<close>

definition Run_refs :: "LeiseExecutorV1 \<Rightarrow> ref list" where
  "Run_refs c = rev (sort (map_keys (callbackPoints (exec c))))"

definition Run_entry :: "'w env \<Rightarrow> nat \<Rightarrow> ref \<Rightarrow> 'w state \<Rightarrow> abort + 'w state" where
  "Run_entry env fuel ref st =
     (if snd (CacheV1_Load (stepTracker (exec (fst st))) ref) then Inr st
      else runChain env fuel ref st)"

definition Run :: "'w env \<Rightarrow> nat \<Rightarrow> 'w state \<Rightarrow> abort + 'w state" where
  "Run env fuel st = forEach (Run_entry env fuel) (Run_refs (fst st)) st"


subsection \<open>Construction\<close>

text \<open>
  \<^verbatim>\<open>NewExecutorV1\<close>. The identifier comes from \<^verbatim>\<open>uuid.NewV4\<close>; it is the
  argument \<open>uid\<close>. The callback argument of the source is the \<open>ResultCallback\<close> of the
  environment the executor is run with.
\<close>

fun add_entrypoints :: "CodeV1 \<Rightarrow> ref list \<Rightarrow> LeiseExecutorV1_fields \<Rightarrow> error + LeiseExecutorV1_fields" where
  "add_entrypoints cd [] res = Inr res"
| "add_entrypoints cd (ref # refs) res =
     (let id = Checksum cd ref
      in if id = [] then Inl (ErrorString ''llx.executor> cannot execute with invalid ref ID in entrypoint'')
         else if ref < 1 then Inl (ErrorString ''llx.executor> cannot execute with invalid ref number in entrypoint'')
         else add_entrypoints cd refs
                (res\<lparr>entrypoints := insert ref (entrypoints res),
                     callbackPoints := AList.update ref id (callbackPoints res)\<rparr>))"

fun add_datapoints :: "CodeV1 \<Rightarrow> ref list \<Rightarrow> LeiseExecutorV1_fields \<Rightarrow> error + LeiseExecutorV1_fields" where
  "add_datapoints cd [] res = Inr res"
| "add_datapoints cd (ref # refs) res =
     (let id = Checksum cd ref
      in if id = [] then Inl (ErrorString ''llx.executor> cannot execute with invalid ref ID in datapoint'')
         else if ref < 1 then Inl (ErrorString ''llx.executor> cannot execute with invalid ref number in datapoint'')
         else add_datapoints cd refs
                (res\<lparr>callbackPoints := AList.update ref id (callbackPoints res)\<rparr>))"

definition NewExecutorV1 :: "string \<Rightarrow> CodeV1 option \<Rightarrow> Runtime option \<Rightarrow> (string \<rightharpoonup> Primitive option) \<Rightarrow> error + LeiseExecutorV1" where
  "NewExecutorV1 uid code_arg runtime_arg props_arg =
     (case runtime_arg of
        None \<Rightarrow> Inl (ErrorString ''cannot exec leise without a runtime'')
      | Some rt \<Rightarrow>
          (case code_arg of
             None \<Rightarrow> Inl (ErrorString ''cannot RunChunky without code'')
           | Some cd \<Rightarrow>
               (let res = \<lparr>exec_id = uid, watcherIds = [], runtime = rt, code = cd,
                           entrypoints = {}, callbackPoints = [], callback = Registered,
                           cache = Map.empty, stepTracker = Map.empty, calls = Map.empty,
                           starts = [], props = props_arg\<rparr>
                in (case add_entrypoints cd (Entrypoints cd) res of
                      Inl e \<Rightarrow> Inl e
                    | Inr res1 \<Rightarrow>
                        (case add_datapoints cd (Datapoints cd) res1 of
                           Inl e \<Rightarrow> Inl e
                         | Inr res2 \<Rightarrow>
                             if map_len (callbackPoints res2) = 0
                             then Inl (ErrorString ''llx.executor> no callback points found'')
                             else Inr (LeiseExecutorV1 res2 []))))))"

subsection \<open>Teardown\<close>

text \<open>
  \<^verbatim>\<open>Unregister\<close>. The provider is outside the executor: \<open>cancel key r\<close> is
  \<^verbatim>\<open>c.runtime.Unregister(key)\<close> on the provider state \<open>r\<close>, a parameter.
  \<^verbatim>\<open>watcherIds\<close> is a \<^verbatim>\<open>types.StringSet\<close> (not under src/); \<^verbatim>\<open>Range\<close> visits
  every key, here in the order of the list. \<open>Unregister_watchers\<close> is that
  \<^verbatim>\<open>Range\<close> loop and \<open>Unregister_blocks\<close> the loop over \<^verbatim>\<open>blockExecutors\<close>; both
  carry \<^verbatim>\<open>errorList\<close>.
\<close>

fun Unregister_watchers :: "(string \<Rightarrow> 'r \<Rightarrow> error option \<times> 'r) \<Rightarrow> string list \<Rightarrow> error list \<Rightarrow> 'r \<Rightarrow> error list \<times> 'r" where
  "Unregister_watchers cancel [] errorList r = (errorList, r)"
| "Unregister_watchers cancel (key # keys) errorList r =
     (case cancel key r of
        (Some err, r1) \<Rightarrow> Unregister_watchers cancel keys (errorList @ [err]) r1
      | (None, r1) \<Rightarrow> Unregister_watchers cancel keys errorList r1)"

fun Unregister :: "(string \<Rightarrow> 'r \<Rightarrow> error option \<times> 'r) \<Rightarrow> LeiseExecutorV1 \<Rightarrow> 'r \<Rightarrow> error option \<times> LeiseExecutorV1 \<times> 'r"
  and Unregister_blocks :: "(string \<Rightarrow> 'r \<Rightarrow> error option \<times> 'r) \<Rightarrow> LeiseExecutorV1 list \<Rightarrow> error list \<Rightarrow> 'r \<Rightarrow> error list \<times> LeiseExecutorV1 list \<times> 'r" where
  "Unregister cancel (LeiseExecutorV1 e bs) r =
     (case Unregister_blocks cancel bs [] r of (errorList1, bs', r1) \<Rightarrow>
        (case Unregister_watchers cancel (watcherIds e) errorList1 r1 of (errorList2, r2) \<Rightarrow>
           ((if length errorList2 > 0 then Some (ErrorString ''multiple errors unregistering'') else None),
            LeiseExecutorV1 (e\<lparr>callback := Decommissioned\<rparr>) bs', r2)))"
| "Unregister_blocks cancel [] errorList r = (errorList, [], r)"
| "Unregister_blocks cancel (b # bs) errorList r =
     (case Unregister cancel b r of (err, b', r1) \<Rightarrow>
        (case Unregister_blocks cancel bs (case err of Some x \<Rightarrow> errorList @ [x] | None \<Rightarrow> errorList) r1 of
           (errorList', bs', r2) \<Rightarrow> (errorList', b' # bs', r2)))"

text \<open>
  Two observations of an executor with its block executors: the watches in the order in
  which \<^verbatim>\<open>Unregister\<close> reaches them (the block executors first, depth first, then the
  executor's own), and whether every callback has been replaced by the no-op.
\<close>

fun Unregister_keys :: "LeiseExecutorV1 \<Rightarrow> string list" where
  "Unregister_keys (LeiseExecutorV1 e bs) = concat (map Unregister_keys bs) @ watcherIds e"

fun decommissioned :: "LeiseExecutorV1 \<Rightarrow> bool" where
  "decommissioned (LeiseExecutorV1 e bs) = (callback e = Decommissioned \<and> list_all decommissioned bs)"

subsection \<open>Blocks\<close>

text \<open>
  \<^verbatim>\<open>runFunctionBlock\<close> builds a child executor and runs it. The callback of the
  child is a closure of the caller: it acts on the parent executor and on variables of
  the closure, so the world of the child is the state of the parent together with those
  variables (\<open>'v\<close>). The child is appended to \<^verbatim>\<open>blockExecutors\<close> before it runs; as
  the parent holds a pointer, the list shows the child as it is after the run, which
  the model writes back at the index of the child.
\<close>

fun seed_args :: "nat \<Rightarrow> RawData option list \<Rightarrow> CacheV1 \<Rightarrow> CacheV1" where
  "seed_args i [] m = m"
| "seed_args i (a # as) m =
     seed_args (Suc i) as (CacheV1_Store m (int i + 1) (Some \<lparr>Result = a, IsStatic = True\<rparr>))"

definition runFunctionBlock :: "('w state \<times> 'v) env \<Rightarrow> nat \<Rightarrow> string \<Rightarrow> RawData option list \<Rightarrow> CodeV1 \<Rightarrow> 'w state \<times> 'v \<Rightarrow> abort + (error option \<times> ('w state \<times> 'v))" where
  "runFunctionBlock cenv fuel uid args cd pv =
     (case pv of ((c, w), vars) \<Rightarrow>
        (case NewExecutorV1 uid (Some cd) (Some (runtime (exec c))) (props (exec c)) of
           Inl err \<Rightarrow> Inr (Some err, pv)
         | Inr executor \<Rightarrow>
             (let idx = length (blockExecutors c);
                  c1 = LeiseExecutorV1 (exec c) (blockExecutors c @ [executor]);
                  executor1 = upd (\<lambda>e. e\<lparr>cache := seed_args 0 args (cache e)\<rparr>) executor
              in (case Run cenv fuel (executor1, ((c1, w), vars)) of
                    Inl a \<Rightarrow> Inl a
                  | Inr (executor2, ((c2, w2), vars2)) \<Rightarrow>
                      Inr (None,
                           ((LeiseExecutorV1 (exec c2) ((blockExecutors c2)[idx := executor2]), w2),
                            vars2))))))"

text \<open>
  The variables \<^verbatim>\<open>blockResult\<close> and \<^verbatim>\<open>anyError\<close> of \<^verbatim>\<open>runBlock\<close> that its
  closure writes to.
\<close>

record blockVars =
  blockResult :: "(string \<times> RawData option) list"
  anyError :: "error option"

text \<open>
  The closure that \<^verbatim>\<open>runBlock\<close> passes to \<^verbatim>\<open>runFunctionBlock\<close>; \<open>func\<close>,
  \<open>bind\<close> and \<open>ref\<close> are the variables it captures and only reads. The composite
  value holds the field map as it is when the closure returns (Go shares the map, so a
  later call of the closure also shows in a composite cached earlier).
\<close>

definition runBlock_callback :: "'w env \<Rightarrow> nat \<Rightarrow> CodeV1 \<Rightarrow> RawData option \<Rightarrow> ref \<Rightarrow> RawResult \<Rightarrow> 'w state \<times> blockVars \<Rightarrow> abort + 'w state \<times> blockVars" where
  "runBlock_callback env fuel func bind ref res pv =
     (case pv of (st, vars) \<Rightarrow>
        if SingleValue func then
          andThen (triggerChain env fuel ref (Data res)
                     (cache_Store ref \<lparr>Result = Data res, IsStatic = False\<rparr> st))
            (\<lambda>st'. Inr (st', vars))
        else
          (let exists = (map_of (blockResult vars) (CodeID res) \<noteq> None)
           in if \<not> exists \<and> Data res = None then Inl (Panic ''nil pointer dereference'')
              else
                (let anyError' = (if \<not> exists \<and> Error (the (Data res)) \<noteq> None
                                  then Some (multierror_Append (anyError vars) (the (Error (the (Data res)))))
                                  else anyError vars);
                     blockResult' = AList.update (CodeID res) (Data res) (blockResult vars);
                     expectedCnt = length (Entrypoints func) + length (Datapoints func)
                 in if map_len blockResult' = expectedCnt then
                      (let blockResult'' =
                             (case bind of
                                None \<Rightarrow> blockResult'
                              | Some b \<Rightarrow>
                                  if IsResource (Type b) then
                                    (case Value b of
                                       ResourceValue rr \<Rightarrow>
                                         AList.update ''_'' (Some (RawData (Type b) (ResourceValue rr) None)) blockResult'
                                     | _ \<Rightarrow> blockResult')
                                  else blockResult');
                           data = RawData Block (MapValue blockResult'') anyError'
                       in andThen (triggerChain env fuel ref (Some data)
                                     (cache_Store ref \<lparr>Result = Some data, IsStatic = True\<rparr> st))
                            (\<lambda>st'. Inr (st', \<lparr>blockResult = blockResult'', anyError = anyError'\<rparr>)))
                    else Inr (st, \<lparr>blockResult = blockResult', anyError = anyError'\<rparr>))))"

text \<open>The loop of \<^verbatim>\<open>runBlock\<close> over \<^verbatim>\<open>args\<close>: \<open>Inl\<close> is its early return.\<close>

fun runBlock_args :: "'w env \<Rightarrow> Primitive option list \<Rightarrow> ref \<Rightarrow> RawData option list \<Rightarrow> 'w state \<Rightarrow> abort + ((result3 + RawData option list) \<times> 'w state)" where
  "runBlock_args env [] ref fargs st = Inr (Inr fargs, st)"
| "runBlock_args env (a # as) ref fargs st =
     andThen (resolveValue env a ref st) (\<lambda>((ra, rb, rc), st1).
       if rc \<noteq> None \<or> rb \<noteq> 0 then Inr (Inl (ra, rb, rc), st1)
       else runBlock_args env as ref (fargs @ [ra]) st1)"

text \<open>
  \<^verbatim>\<open>runBlock\<close>. \<open>env\<close> is the environment of the parent; \<open>cenv\<close> gives the functions
  that are not under src/ to the child, and its \<open>ResultCallback\<close> is replaced by the
  closure.
\<close>

definition runBlock :: "'w env \<Rightarrow> ('w state \<times> blockVars) env \<Rightarrow> nat \<Rightarrow> string \<Rightarrow> RawData option \<Rightarrow> Primitive option \<Rightarrow> Primitive option list \<Rightarrow> ref \<Rightarrow> ('w, result3) action" where
  "runBlock env cenv fuel uid bind functionRef args ref st =
     (if (case bind of None \<Rightarrow> False | Some b \<Rightarrow> Value b = NilValue \<and> Type b \<noteq> Nil)
      then Inr ((Some (RawData (Type (the bind)) NilValue None), 0, None), st)
      else
        (case functionRef of
           None \<Rightarrow> Inl (Panic ''nil pointer dereference'')
         | Some fr \<Rightarrow>
             if \<not> IsFunction (PrimType fr)
             then Inr ((None, 0, Some (ErrorString ''called block with wrong function type'')), st)
             else
               (case RefV1 env fr of
                  (fref, False) \<Rightarrow>
                    Inr ((None, 0, Some (ErrorString ''cannot retrieve function reference on block call'')), st)
                | (fref, True) \<Rightarrow>
                    (let funcs = Functions (code (exec (fst st)))
                     in if fref - 1 < 0 \<or> int (length funcs) \<le> fref - 1
                        then Inl (Panic ''index out of range'')
                        else
                          (case funcs ! nat (fref - 1) of
                             None \<Rightarrow> Inr ((None, 0, Some (ErrorString ''block function is nil'')), st)
                           | Some func \<Rightarrow>
                               andThen (runBlock_args env args ref
                                          (case bind of None \<Rightarrow> [] | Some b \<Rightarrow> [bind]) st)
                                 (\<lambda>(r, st1).
                                    (case r of
                                       Inl early \<Rightarrow> Inr (early, st1)
                                     | Inr fargs \<Rightarrow>
                                         andThen
                                           (runFunctionBlock
                                              (cenv\<lparr>ResultCallback := runBlock_callback env fuel func bind ref\<rparr>)
                                              fuel uid fargs func
                                              (st1, \<lparr>blockResult = [], anyError = None\<rparr>))
                                           (\<lambda>(err, (st2, vars)). Inr ((None, 0, err), st2)))))))))"

subsection \<open>What the functions outside this file may do\<close>

text \<open>
  The step-tracker is written by \<^verbatim>\<open>runChain\<close> only, which adds to it, and
  \<^verbatim>\<open>callbackPoints\<close> is written by \<^verbatim>\<open>NewExecutorV1\<close> only. \<open>advances st st'\<close>
  says that from \<open>st\<close> to \<open>st'\<close> the callback record is the same and no ref has left
  the step-tracker; \<open>env_advances\<close> asks this of the functions of the environment,
  which may themselves run chains of this executor.
\<close>

definition advances :: "'w state \<Rightarrow> 'w state \<Rightarrow> bool" where
  "advances st st' \<longleftrightarrow>
     callbackPoints (exec (fst st')) = callbackPoints (exec (fst st))
     \<and> dom (stepTracker (exec (fst st))) \<subseteq> dom (stepTracker (exec (fst st')))"

definition action_advances :: "('w state \<Rightarrow> abort + ('a \<times> 'w state)) \<Rightarrow> bool" where
  "action_advances f \<longleftrightarrow> (\<forall>st x st'. f st = Inr (x, st') \<longrightarrow> advances st st')"

definition env_advances :: "'w env \<Rightarrow> bool" where
  "env_advances env \<longleftrightarrow>
     (\<forall>p ref. action_advances (resolveValue env p ref))
     \<and> (\<forall>bind chunk ref. action_advances (runBoundFunctionV1 env bind chunk ref))
     \<and> (\<forall>name h f ref. handleGlobalV1 env name = (Some h, True) \<longrightarrow> action_advances (h f ref))
     \<and> (\<forall>ref args. action_advances (args2resourceargsV1 env ref args))
     \<and> (\<forall>name args. action_advances (CreateResource env name args))"

subsection \<open>A sample environment and sample programs\<close>

text \<open>
  For concrete runs. In \<open>sample_env\<close> the world is the list of the results the
  caller's callback has received. The provider of \<open>sample_functions\<close> knows the resource \<open>os\<close>, reports
  \<open>host\<close> as not ready and fails on every other name; a primitive resolves to its
  own payload; a bound function returns the value it is bound to; no global function
  is registered.
\<close>

definition sample_functions :: "'w env" where
  "sample_functions =
     \<lparr>ResultCallback = (\<lambda>r w. Inr w),
      resolveValue = (\<lambda>p ref st.
         (case p of
            None \<Rightarrow> Inr ((None, 0, Some (ErrorString ''cannot resolve nil primitive'')), st)
          | Some q \<Rightarrow> Inr ((Some (RawData (PrimType q) (OtherValue (PrimValue q)) None), 0, None), st))),
      runBoundFunctionV1 = (\<lambda>bind chunk ref st.
         Inr ((bind, 0, None), cache_Store ref \<lparr>Result = bind, IsStatic = False\<rparr> st)),
      handleGlobalV1 = (\<lambda>name. (None, False)),
      args2resourceargsV1 = (\<lambda>ref args st. Inr (([], 0, None), st)),
      CreateResource = (\<lambda>name args st.
         if name = ''os'' then Inr ((ResourceValue name, None), st)
         else if name = ''host'' then Inr ((NilValue, Some (NotReadyError name)), st)
         else Inr ((NilValue, Some (ErrorString (''cannot create resource '' @ name))), st)),
      errorResult = (\<lambda>err codeID. \<lparr>Data = Some (RawData ZeroType NilValue (Some err)), CodeID = codeID\<rparr>),
      errorResultMsg = (\<lambda>msg codeID.
         \<lparr>Data = Some (RawData ZeroType NilValue (Some (ErrorString msg))), CodeID = codeID\<rparr>),
      RefV1 = (\<lambda>p. (0, False)),
      emptyFunction = \<lparr>DeprecatedV5Binding = 0, Args = []\<rparr>\<rparr>"

definition sample_env :: "RawResult list env" where
  "sample_env = sample_functions\<lparr>ResultCallback := (\<lambda>r w. Inr (w @ [r]))\<rparr>"

text \<open>An executor with the given program, property table and callback record.\<close>

definition sample_exec :: "CodeV1 \<Rightarrow> (string \<rightharpoonup> Primitive option) \<Rightarrow> (ref \<times> string) list \<Rightarrow> LeiseExecutorV1" where
  "sample_exec cd ps cps =
     LeiseExecutorV1
       \<lparr>exec_id = ''e0'', watcherIds = [], runtime = Runtime ''rt'', code = cd,
        entrypoints = set (map fst cps), callbackPoints = cps, callback = Registered,
        cache = Map.empty, stepTracker = Map.empty, calls = Map.empty,
        starts = [], props = ps\<rparr> []"

text \<open>A call of a global function, that is a resource, and a call bound to ref 1.\<close>

definition resource_chunk :: "string \<Rightarrow> Chunk" where
  "resource_chunk name =
     \<lparr>Call = Chunk_FUNCTION, ChunkId = name, Primitive = None,
      Function = Some \<lparr>DeprecatedV5Binding = 0, Args = []\<rparr>\<rparr>"

definition bound_chunk :: "string \<Rightarrow> ref \<Rightarrow> Chunk" where
  "bound_chunk name b =
     \<lparr>Call = Chunk_FUNCTION, ChunkId = name, Primitive = None,
      Function = Some \<lparr>DeprecatedV5Binding = b, Args = []\<rparr>\<rparr>"

definition property_chunk :: "string \<Rightarrow> Chunk" where
  "property_chunk name =
     \<lparr>Call = Chunk_PROPERTY, ChunkId = name, Primitive = None, Function = None\<rparr>"

definition program :: "Chunk list \<Rightarrow> CodeV1" where
  "program chunks = CodeV1 (map Some chunks) [] [] [] [] False"

text \<open>
  Two programs of one chunk, each with the entrypoint \<open>1\<close>: the resource \<open>host\<close>,
  which the sample provider reports as not ready, and the property \<open>x\<close>, which the
  property table does not hold (\<open>prop_error\<close> is the error of that lookup).
\<close>

definition host_exec :: LeiseExecutorV1 where
  "host_exec = sample_exec (program [resource_chunk ''host'']) Map.empty [(1, ''chk1'')]"

definition prop_exec :: LeiseExecutorV1 where
  "prop_exec = sample_exec (program [property_chunk ''x'']) Map.empty [(1, ''chk1'')]"

definition prop_error :: error where
  "prop_error = ErrorString (''cannot find property '' @ [CHR 0x27] @ ''x'' @ [CHR 0x27])"

text \<open>
  The resource \<open>os\<close> as a value, and an executor whose entrypoint \<open>1\<close> holds it in the
  cache as a static result, with no ref depending on it.
\<close>

definition os_value :: RawData where
  "os_value = RawData (Resource ''os'') (ResourceValue ''os'') None"

definition os_exec :: LeiseExecutorV1 where
  "os_exec = upd (\<lambda>e. e\<lparr>cache := [1 \<mapsto> Some \<lparr>Result = Some os_value, IsStatic = True\<rparr>]\<rparr>)
               (sample_exec (program [resource_chunk ''os'']) Map.empty [(1, ''chk1'')])"

text \<open>
  A block of two datapoints with the code IDs \<open>a\<close> and \<open>b\<close>, called at ref \<open>2\<close> of
  \<open>block_parent\<close> on the resource \<open>os\<close>; the field \<open>b\<close> carries an error.
  \<open>block_data\<close> is the composite value of the block.
\<close>

definition block_code :: CodeV1 where
  "block_code = CodeV1 [] [] [2, 3] [(2, ''a''), (3, ''b'')] [] False"

definition block_parent :: LeiseExecutorV1 where
  "block_parent = sample_exec (program [resource_chunk ''os'', bound_chunk ''{}'' 1]) Map.empty [(2, ''chk2'')]"

definition field_a :: RawData where
  "field_a = RawData (OtherType ''string'') (OtherValue ''linux'') None"

definition field_b :: RawData where
  "field_b = RawData (OtherType ''string'') NilValue (Some (ErrorString ''no such field''))"

definition block_data :: RawData where
  "block_data =
     RawData Block
       (MapValue [(''a'', Some field_a), (''b'', Some field_b), (''_'', Some os_value)])
       (Some (MultiError [ErrorString ''no such field'']))"

text \<open>
  A provider whose \<^verbatim>\<open>Unregister\<close> records the key and fails on the watch \<open>w1\<close>, and
  an executor with the given watches and block executors.
\<close>

definition sample_cancel :: "string \<Rightarrow> string list \<Rightarrow> error option \<times> string list" where
  "sample_cancel key r = ((if key = ''w1'' then Some (ErrorString ''boom'') else None), r @ [key])"

definition watching :: "string list \<Rightarrow> LeiseExecutorV1 list \<Rightarrow> LeiseExecutorV1" where
  "watching keys bs =
     LeiseExecutorV1 (exec (upd (\<lambda>e. e\<lparr>watcherIds := keys\<rparr>) (sample_exec (program []) Map.empty [(1, ''chk1'')]))) bs"

text \<open>
  A program of two refs, both entrypoints: the resource \<open>os\<close> and a call bound to it;
  \<open>two_refs_done\<close> is its executor after \<^verbatim>\<open>Run\<close>.
\<close>

definition two_refs :: LeiseExecutorV1 where
  "two_refs = sample_exec (program [resource_chunk ''os'', bound_chunk ''name'' 1]) Map.empty
                [(1, ''chk1''), (2, ''chk2'')]"

definition two_refs_done :: LeiseExecutorV1 where
  "two_refs_done =
     upd (\<lambda>e. e\<lparr>cache := [1 \<mapsto> Some \<lparr>Result = Some os_value, IsStatic = True\<rparr>,
                          2 \<mapsto> Some \<lparr>Result = Some os_value, IsStatic = False\<rparr>],
                calls := [1 \<mapsto> [2]],
                stepTracker := [2 \<mapsto> None, 1 \<mapsto> None]\<rparr>) two_refs"

text \<open>
  For the retry of the not-ready resource: \<open>ready_env\<close> is the sample environment with
  a provider that by now has every resource, and \<open>host_result\<close> is the error result
  the callback receives for the not-ready \<open>host\<close>.
\<close>

definition ready_env :: "RawResult list env" where
  "ready_env = sample_env\<lparr>CreateResource := (\<lambda>name args st. Inr ((ResourceValue name, None), st))\<rparr>"

definition host_result :: RawResult where
  "host_result = \<lparr>Data = Some (RawData ZeroType NilValue (Some (NotReadyError ''host''))), CodeID = ''chk1''\<rparr>"

text \<open>
  An evaluation that returns a result together with an error: in \<open>partial_env\<close> every
  primitive resolves to \<open>partial_value\<close> and the error \<open>partial\<close>, and
  \<open>partial_exec\<close> has the property \<open>x\<close> in its table.
\<close>

definition partial_value :: RawData where
  "partial_value = RawData (OtherType ''string'') (OtherValue ''linux'') None"

definition partial_env :: "RawResult list env" where
  "partial_env =
     sample_env\<lparr>resolveValue :=
       (\<lambda>p ref st. Inr ((Some partial_value, 0, Some (ErrorString ''partial'')), st))\<rparr>"

definition partial_exec :: LeiseExecutorV1 where
  "partial_exec = sample_exec (program [property_chunk ''x'']) [''x'' \<mapsto> None] [(1, ''chk1'')]"

section \<open>Theorems\<close>

subsection \<open>The dependency graph\<close>


lemma CallsV1_Load_fst: "fst (CallsV1_Load c k) = (case c k of None \<Rightarrow> [] | Some xs \<Rightarrow> xs)"
  by (simp add: CallsV1_Load_def split: option.split)

lemma CallsV1_Store_old:
  "v \<in> set (fst (CallsV1_Load c k)) \<Longrightarrow> CallsV1_Store c k v = (True, c)"
  by (simp add: CallsV1_Store_def CallsV1_Load_fst)

lemma CallsV1_Store_new:
  "v \<notin> set (fst (CallsV1_Load c k)) \<Longrightarrow>
   CallsV1_Store c k v = (False, c(k \<mapsto> fst (CallsV1_Load c k) @ [v]))"
  by (simp add: CallsV1_Store_def CallsV1_Load_fst)

lemma CallsV1_Store_mem: "v \<in> set (fst (CallsV1_Load (snd (CallsV1_Store c k v)) k))"
proof (cases "v \<in> set (fst (CallsV1_Load c k))")
  case True
  then show ?thesis by (simp add: CallsV1_Store_old)
next
  case False
  then show ?thesis by (simp add: CallsV1_Store_new CallsV1_Load_def)
qed

lemma CallsV1_built_distinct:
  "CallsV1_built c \<Longrightarrow> distinct (fst (CallsV1_Load c k))"
proof (induction arbitrary: k rule: CallsV1_built.induct)
  case empty
  then show ?case by (simp add: CallsV1_Load_def)
next
  case (Store c k' v)
  show ?case
  proof (cases "v \<in> set (fst (CallsV1_Load c k'))")
    case True
    then show ?thesis using Store.IH by (simp add: CallsV1_Store_old)
  next
    case False
    have "distinct (fst (CallsV1_Load c k))" "distinct (fst (CallsV1_Load c k'))"
      using Store.IH by blast+
    then show ?thesis using False
      by (simp add: CallsV1_Store_new) (simp add: CallsV1_Load_def)
  qed
qed

lemma count_list_distinct: "distinct xs \<Longrightarrow> x \<in> set xs \<Longrightarrow> count_list xs x = 1"
  by (induction xs) (auto simp: count_list_0_iff)

text \<open>
  C3. On a dependency graph built by \<^verbatim>\<open>Store\<close> from the empty one, for every pair of
  refs \<open>(a, b)\<close>: when \<open>b\<close> is already among the edges of \<open>a\<close>, \<open>Store a b\<close> returns
  true and leaves the graph as it is; otherwise it returns false, the edge list of \<open>a\<close>
  is the old one with \<open>b\<close> appended, and no other key changes. A second \<open>Store a b\<close>
  returns true and changes nothing, and \<open>Load a\<close> then holds exactly one occurrence
  of \<open>b\<close>.
\<close>

theorem CallsV1_Store_dedup:
  assumes "CallsV1_built c"
  shows "(b \<in> set (fst (CallsV1_Load c a)) \<longrightarrow> CallsV1_Store c a b = (True, c))
       \<and> (b \<notin> set (fst (CallsV1_Load c a)) \<longrightarrow>
            fst (CallsV1_Store c a b) = False
          \<and> CallsV1_Load (snd (CallsV1_Store c a b)) a = (fst (CallsV1_Load c a) @ [b], True)
          \<and> (\<forall>k. k \<noteq> a \<longrightarrow> snd (CallsV1_Store c a b) k = c k))
       \<and> CallsV1_Store (snd (CallsV1_Store c a b)) a b = (True, snd (CallsV1_Store c a b))
       \<and> count_list (fst (CallsV1_Load (snd (CallsV1_Store (snd (CallsV1_Store c a b)) a b)) a)) b = 1"
proof -
  let ?c1 = "snd (CallsV1_Store c a b)"
  have built1: "CallsV1_built ?c1"
    using assms by (rule CallsV1_built.Store)
  have mem1: "b \<in> set (fst (CallsV1_Load ?c1 a))"
    by (rule CallsV1_Store_mem)
  have second: "CallsV1_Store ?c1 a b = (True, ?c1)"
    using mem1 by (rule CallsV1_Store_old)
  have "distinct (fst (CallsV1_Load ?c1 a))"
    using built1 by (rule CallsV1_built_distinct)
  then have cnt: "count_list (fst (CallsV1_Load ?c1 a)) b = 1"
    using mem1 by (rule count_list_distinct)
  have old: "b \<in> set (fst (CallsV1_Load c a)) \<longrightarrow> CallsV1_Store c a b = (True, c)"
    by (simp add: CallsV1_Store_old)
  have new: "b \<notin> set (fst (CallsV1_Load c a)) \<longrightarrow>
            fst (CallsV1_Store c a b) = False
          \<and> CallsV1_Load ?c1 a = (fst (CallsV1_Load c a) @ [b], True)
          \<and> (\<forall>k. k \<noteq> a \<longrightarrow> ?c1 k = c k)"
    by (simp add: CallsV1_Store_new CallsV1_Load_def)
  show ?thesis
    unfolding second using old new cnt by (simp only: snd_conv simp_thms)
qed

theorem CallsV1_Store_dedup_witness:
  "CallsV1_built (Map.empty :: CallsV1)
   \<and> CallsV1_Store Map.empty 1 2 = (False, [1 \<mapsto> [2]])
   \<and> CallsV1_Store [1 \<mapsto> [2]] 1 2 = (True, [1 \<mapsto> [2]])
   \<and> count_list (fst (CallsV1_Load [1 \<mapsto> [2]] 1)) 2 = 1"
proof -
  have s: "CallsV1_Store Map.empty 1 2 = (False, [1 \<mapsto> [2]])"
    by (simp add: CallsV1_Store_def)
  have e: "CallsV1_built (Map.empty :: CallsV1)"
    by (rule CallsV1_built.empty)
  show ?thesis
    using CallsV1_Store_dedup [OF e, of 2 1] e
    unfolding s by (simp add: CallsV1_Load_def)
qed


subsection \<open>Bound function calls\<close>

lemma upd_same_calls: "upd (\<lambda>e. e\<lparr>calls := calls (exec c)\<rparr>) c = c"
  by (simp add: upd_def)

text \<open>
  C5. A function chunk bound to a receiver ref (a binding other than 0) that has no
  entry in the cache does not fail: \<^verbatim>\<open>runFunction\<close> returns no result and no error.
  When the edge from the receiver to the current ref is already in the dependency graph,
  the next ref is 0 and the state is unchanged; when it is new, the edge is appended to
  the edges of the receiver and the next ref is the receiver.
\<close>

theorem runFunction_unbound_receiver:
  assumes "Function chunk = Some f"
    and "DeprecatedV5Binding f \<noteq> 0"
    and "cache (exec c) (DeprecatedV5Binding f) = None"
  shows "runFunction env chunk ref (c, w) =
           (if ref \<in> set (fst (CallsV1_Load (calls (exec c)) (DeprecatedV5Binding f)))
            then Inr ((None, 0, None), (c, w))
            else Inr ((None, DeprecatedV5Binding f, None),
                      (upd (\<lambda>e. e\<lparr>calls := (calls (exec c))(DeprecatedV5Binding f \<mapsto>
                                   fst (CallsV1_Load (calls (exec c)) (DeprecatedV5Binding f)) @ [ref])\<rparr>) c, w)))"
proof -
  let ?b = "DeprecatedV5Binding f"
  have run: "runFunction env chunk ref (c, w) = connectRef ?b ref (c, w)"
    using assms by (simp add: runFunction_def CacheV1_Load_def)
  show ?thesis
  proof (cases "ref \<in> set (fst (CallsV1_Load (calls (exec c)) ?b))")
    case True
    then show ?thesis
      unfolding run by (simp add: connectRef_def CallsV1_Store_old upd_same_calls)
  next
    case False
    then show ?thesis
      unfolding run by (simp add: connectRef_def CallsV1_Store_new)
  qed
qed


theorem runFunction_unbound_receiver_witness:
  "Function (bound_chunk ''length'' 1) = Some \<lparr>DeprecatedV5Binding = 1, Args = []\<rparr>
   \<and> DeprecatedV5Binding \<lparr>DeprecatedV5Binding = 1, Args = []\<rparr> \<noteq> 0
   \<and> cache (exec (sample_exec (program []) Map.empty [(2, ''chk2'')])) 1 = None
   \<and> runFunction sample_env (bound_chunk ''length'' 1) 2
        (sample_exec (program []) Map.empty [(2, ''chk2'')], []) =
      Inr ((None, 1, None),
           (upd (\<lambda>e. e\<lparr>calls := [1 \<mapsto> [2]]\<rparr>) (sample_exec (program []) Map.empty [(2, ''chk2'')]), []))"
proof -
  have f: "Function (bound_chunk ''length'' 1) = Some \<lparr>DeprecatedV5Binding = 1, Args = []\<rparr>"
    by (simp add: bound_chunk_def)
  have b: "DeprecatedV5Binding \<lparr>DeprecatedV5Binding = 1, Args = []\<rparr> \<noteq> 0"
    by simp
  have c: "cache (exec (sample_exec (program []) Map.empty [(2, ''chk2'')]))
             (DeprecatedV5Binding \<lparr>DeprecatedV5Binding = 1, Args = []\<rparr>) = None"
    by (simp add: sample_exec_def)
  show ?thesis
    using runFunction_unbound_receiver [OF f b c, of sample_env 2 "[]"] f c
    by (simp add: sample_exec_def CallsV1_Load_def)
qed

text \<open>
  C6. When the receiver of a function chunk has a cached value that carries an error,
  \<^verbatim>\<open>runFunction\<close> stores the receiver's result at the dependent ref and returns that
  error with no result and no next ref. The equation holds for every environment: the
  bound function of the dependent chunk is not run.
\<close>

theorem runFunction_receiver_error:
  assumes "Function chunk = Some f"
    and "DeprecatedV5Binding f \<noteq> 0"
    and "cache (exec c) (DeprecatedV5Binding f) = Some (Some sc)"
    and "Result sc = Some r"
    and "Error r = Some e"
  shows "runFunction env chunk ref (c, w) =
           Inr ((None, 0, Some e), cache_Store ref \<lparr>Result = Some r, IsStatic = False\<rparr> (c, w))
       \<and> cache (exec (fst (cache_Store ref \<lparr>Result = Some r, IsStatic = False\<rparr> (c, w)))) ref =
           Some (Some \<lparr>Result = Some r, IsStatic = False\<rparr>)"
  using assms
  by (simp add: runFunction_def CacheV1_Load_def cache_Store_def upd_def CacheV1_Store_def)

theorem runFunction_receiver_error_witness:
  "runFunction sample_env (bound_chunk ''length'' 1) 2
     (upd (\<lambda>e. e\<lparr>cache := [1 \<mapsto> Some \<lparr>Result = Some (RawData (Resource ''os'') NilValue
                                         (Some (ErrorString ''boom''))), IsStatic = True\<rparr>]\<rparr>)
        (sample_exec (program []) Map.empty [(2, ''chk2'')]), []) =
   Inr ((None, 0, Some (ErrorString ''boom'')),
        cache_Store 2 \<lparr>Result = Some (RawData (Resource ''os'') NilValue (Some (ErrorString ''boom''))),
                       IsStatic = False\<rparr>
          (upd (\<lambda>e. e\<lparr>cache := [1 \<mapsto> Some \<lparr>Result = Some (RawData (Resource ''os'') NilValue
                                         (Some (ErrorString ''boom''))), IsStatic = True\<rparr>]\<rparr>)
             (sample_exec (program []) Map.empty [(2, ''chk2'')]), []))"
proof -
  let ?r = "RawData (Resource ''os'') NilValue (Some (ErrorString ''boom''))"
  let ?sc = "\<lparr>Result = Some ?r, IsStatic = True\<rparr>"
  let ?c = "upd (\<lambda>e. e\<lparr>cache := [1 \<mapsto> Some ?sc]\<rparr>) (sample_exec (program []) Map.empty [(2, ''chk2'')])"
  have f: "Function (bound_chunk ''length'' 1) = Some \<lparr>DeprecatedV5Binding = 1, Args = []\<rparr>"
    by (simp add: bound_chunk_def)
  have b: "DeprecatedV5Binding \<lparr>DeprecatedV5Binding = 1, Args = []\<rparr> \<noteq> 0"
    by simp
  have c: "cache (exec ?c) (DeprecatedV5Binding \<lparr>DeprecatedV5Binding = 1, Args = []\<rparr>) = Some (Some ?sc)"
    by (simp add: upd_def)
  have r: "Result ?sc = Some ?r" by simp
  have e: "Error ?r = Some (ErrorString ''boom'')" by simp
  show ?thesis
    using runFunction_receiver_error [OF f b c r e, of sample_env 2 "[]"] by simp
qed

subsection \<open>Blocks\<close>

text \<open>
  C10. A block called on a receiver that is not nil, whose payload is nil and whose type
  is not \<^verbatim>\<open>types.Nil\<close>, returns a \<^verbatim>\<open>RawData\<close> of the receiver's type with a nil
  payload and no error, next ref 0 and no error. The state is returned as it was: no
  child executor is appended and the sub-program is not looked up or run.
\<close>

theorem runBlock_nil_receiver:
  assumes "bind = Some b"
    and "Value b = NilValue"
    and "Type b \<noteq> Nil"
  shows "runBlock env cenv fuel uid bind functionRef args ref st =
           Inr ((Some (RawData (Type b) NilValue None), 0, None), st)"
  using assms by (simp add: runBlock_def)

theorem runBlock_nil_receiver_witness:
  "runBlock sample_env sample_functions 5 ''e1'' (Some (RawData (Resource ''os'') NilValue None)) None [] 2
     (sample_exec (program []) Map.empty [(2, ''chk2'')], []) =
   Inr ((Some (RawData (Resource ''os'') NilValue None), 0, None),
        (sample_exec (program []) Map.empty [(2, ''chk2'')], []))"
proof -
  have v: "Value (RawData (Resource ''os'') NilValue None) = NilValue" by simp
  have t: "Type (RawData (Resource ''os'') NilValue None) \<noteq> Nil" by simp
  show ?thesis
    using runBlock_nil_receiver [OF refl v t, of sample_env sample_functions 5 "''e1''" None "[]" 2] by simp
qed


subsection \<open>The chain walk\<close>

lemma call_callback_cases:
  "call_callback env x st =
     (case callback (exec (fst st)) of
        Decommissioned \<Rightarrow> Inr st
      | Registered \<Rightarrow>
          (case ResultCallback env x (snd st) of
             Inl a \<Rightarrow> Inl a
           | Inr w' \<Rightarrow> Inr (fst st, w')))"
  by (cases st) (simp add: call_callback_def andThen_def split: callback.split sum.split)

lemma runChain_eval_absent:
  "cache (exec (fst st)) r = None \<Longrightarrow> runChain_eval env r st = runRef env r st"
  by (simp add: runChain_eval_def CacheV1_Load_def)

text \<open>
  C1, as amended. Let the evaluation of the chunk at \<open>r\<close> return a not-ready error
  \<open>e\<close> and no result. When \<open>r\<close> has no entry in the callback record, the callback is
  not called; when it has one, the callback that is registered is called exactly once,
  with the error result for \<open>e\<close>. The pass of the chain walk stores nothing in the
  cache: in every state it returns, the executor is as the evaluation left it. So when
  the evaluation left no entry at \<open>r\<close>, there is none after the pass, and a later
  chain walk at \<open>r\<close> runs the chunk again, in whatever environment it is given, so
  that a retry can succeed. A resource call leaves the cache as it is when the provider
  reports a not-ready error \<open>e'\<close>: \<^verbatim>\<open>createResource\<close> returns the state the
  provider left.
\<close>

theorem runChain_step_not_ready:
  assumes "runChain_eval env r (stepTracker_Store r st) = Inr ((None, nextRef, Some e), st1)"
    and "isNotReadyError e"
  shows "runChain_step env r remaining st =
           (case map_of (callbackPoints (exec (fst st1))) r of
              None \<Rightarrow> Inr (st1, runChain_next r nextRef remaining st1)
            | Some codeID \<Rightarrow>
                (case callback (exec (fst st1)) of
                   Decommissioned \<Rightarrow> Inr (st1, runChain_next r nextRef remaining st1)
                 | Registered \<Rightarrow>
                     (case ResultCallback env (errorResult env e codeID) (snd st1) of
                        Inl a \<Rightarrow> Inl a
                      | Inr w' \<Rightarrow> Inr ((fst st1, w'), runChain_next r nextRef remaining (fst st1, w')))))
       \<and> (\<forall>st2 nx. runChain_step env r remaining st = Inr (st2, nx) \<longrightarrow>
             fst st2 = fst st1
           \<and> (cache (exec (fst st1)) r = None \<longrightarrow>
                cache (exec (fst st2)) r = None
              \<and> (\<forall>env2. runChain_eval env2 r st2 = runRef env2 r st2)))
       \<and> (isNotReadyError e' \<longrightarrow>
          args2resourceargsV1 env r (Args f) sa = Inr ((args, 0, None), sb) \<longrightarrow>
          CreateResource env name args sb = Inr ((v, Some e'), sc) \<longrightarrow>
          createResource env name f r sa = Inr ((None, 0, Some e'), sc))"
proof -
  have walk: "runChain_step env r remaining st =
           (case map_of (callbackPoints (exec (fst st1))) r of
              None \<Rightarrow> Inr (st1, runChain_next r nextRef remaining st1)
            | Some codeID \<Rightarrow>
                (case callback (exec (fst st1)) of
                   Decommissioned \<Rightarrow> Inr (st1, runChain_next r nextRef remaining st1)
                 | Registered \<Rightarrow>
                     (case ResultCallback env (errorResult env e codeID) (snd st1) of
                        Inl a \<Rightarrow> Inl a
                      | Inr w' \<Rightarrow> Inr ((fst st1, w'), runChain_next r nextRef remaining (fst st1, w')))))"
    using assms
    by (simp add: runChain_step_def runChain_report_def andThen_def call_callback_cases
        split: option.split callback.split sum.split)
  have same: "fst st2 = fst st1" if "runChain_step env r remaining st = Inr (st2, nx)" for st2 nx
    using that unfolding walk
    by (auto split: option.splits callback.splits sum.splits)
  have kept: "\<forall>st2 nx. runChain_step env r remaining st = Inr (st2, nx) \<longrightarrow>
             fst st2 = fst st1
           \<and> (cache (exec (fst st1)) r = None \<longrightarrow>
                cache (exec (fst st2)) r = None
              \<and> (\<forall>env2. runChain_eval env2 r st2 = runRef env2 r st2))"
    using same by (simp add: runChain_eval_absent)
  have res: "isNotReadyError e' \<longrightarrow>
          args2resourceargsV1 env r (Args f) sa = Inr ((args, 0, None), sb) \<longrightarrow>
          CreateResource env name args sb = Inr ((v, Some e'), sc) \<longrightarrow>
          createResource env name f r sa = Inr ((None, 0, Some e'), sc)"
    by (simp add: createResource_def andThen_def)
  show ?thesis
    using walk kept res by (intro conjI)
qed

lemma host_eval:
  "runChain_eval sample_env 1 (stepTracker_Store 1 (host_exec, [])) =
     Inr ((None, 0, Some (NotReadyError ''host'')), stepTracker_Store 1 (host_exec, []))"
  by (simp add: host_exec_def runChain_eval_def stepTracker_Store_def upd_def sample_exec_def CacheV1_Load_def
      CacheV1_Store_def runRef_def program_def resource_chunk_def runChunk_def runFunction_def
      runGlobalFunction_def sample_env_def sample_functions_def createResource_def andThen_def)

text \<open>
  The claim C1 as stated fails: the chunk \<open>host\<close> evaluates to a not-ready error, and
  the chain walk delivers one result to the callback.
\<close>

theorem runChain_not_ready_counterexample:
  "runChain_eval sample_env 1 (stepTracker_Store 1 (host_exec, [])) =
     Inr ((None, 0, Some (NotReadyError ''host'')), stepTracker_Store 1 (host_exec, []))
   \<and> runChain sample_env 1 1 (host_exec, []) =
     Inr (fst (stepTracker_Store 1 (host_exec, [])),
          [\<lparr>Data = Some (RawData ZeroType NilValue (Some (NotReadyError ''host''))), CodeID = ''chk1''\<rparr>])"
proof -
  have step: "runChain_step sample_env 1 [] (host_exec, []) =
     Inr ((fst (stepTracker_Store 1 (host_exec, [])),
          [\<lparr>Data = Some (RawData ZeroType NilValue (Some (NotReadyError ''host''))), CodeID = ''chk1''\<rparr>]), None)"
    unfolding runChain_step_def host_eval
    by (simp add: andThen_def runChain_report_def host_exec_def stepTracker_Store_def upd_def sample_exec_def
        call_callback_def sample_env_def sample_functions_def runChain_next_def CallsV1_Load_def)
  show ?thesis
    apply (simp add: runChain_def host_eval)
    apply (subst step)
    apply simp
    done
qed


theorem runChain_step_not_ready_witness:
  "isNotReadyError (NotReadyError ''host'')
   \<and> runChain_step sample_env 1 [] (host_exec, []) =
       Inr ((fst (stepTracker_Store 1 (host_exec, [] :: RawResult list)), [host_result]), None)
   \<and> cache (exec (fst (stepTracker_Store 1 (host_exec, [] :: RawResult list)))) 1 = None
   \<and> runChain_eval ready_env 1 (fst (stepTracker_Store 1 (host_exec, [] :: RawResult list)), [host_result]) =
       Inr ((Some (RawData (Resource ''host'') (ResourceValue ''host'') None), 0, None),
            cache_Store 1 \<lparr>Result = Some (RawData (Resource ''host'') (ResourceValue ''host'') None),
                           IsStatic = True\<rparr>
              (fst (stepTracker_Store 1 (host_exec, [] :: RawResult list)), [host_result]))
   \<and> createResource sample_env ''host'' \<lparr>DeprecatedV5Binding = 0, Args = []\<rparr> 1 (host_exec, []) =
       Inr ((None, 0, Some (NotReadyError ''host'')), (host_exec, []))"
proof -
  let ?st2 = "(fst (stepTracker_Store 1 (host_exec, [] :: RawResult list)), [host_result])"
  have nr: "isNotReadyError (NotReadyError ''host'')" by simp
  have a: "args2resourceargsV1 sample_env 1 (Args \<lparr>DeprecatedV5Binding = 0, Args = []\<rparr>) (host_exec, []) =
             Inr (([], 0, None), (host_exec, []))"
    by (simp add: sample_env_def sample_functions_def)
  have cr: "CreateResource sample_env ''host'' [] (host_exec, []) =
             Inr ((NilValue, Some (NotReadyError ''host'')), (host_exec, []))"
    by (simp add: sample_env_def sample_functions_def)
  have absent: "cache (exec (fst (stepTracker_Store 1 (host_exec, [] :: RawResult list)))) 1 = None"
    by (simp add: host_exec_def stepTracker_Store_def upd_def sample_exec_def)
  have cps: "map_of (callbackPoints (exec (fst (stepTracker_Store 1 (host_exec, []))))) 1 = Some ''chk1''"
    "callback (exec (fst (stepTracker_Store 1 (host_exec, [])))) = Registered"
    "calls (exec (fst (stepTracker_Store 1 (host_exec, [])))) = Map.empty"
    by (simp_all add: host_exec_def stepTracker_Store_def upd_def sample_exec_def)
  have retry: "runRef ready_env 1 ?st2 =
       Inr ((Some (RawData (Resource ''host'') (ResourceValue ''host'') None), 0, None),
            cache_Store 1 \<lparr>Result = Some (RawData (Resource ''host'') (ResourceValue ''host'') None),
                           IsStatic = True\<rparr> ?st2)"
    by (simp add: host_exec_def stepTracker_Store_def upd_def sample_exec_def
        runRef_def program_def resource_chunk_def runChunk_def runFunction_def
        runGlobalFunction_def ready_env_def sample_env_def sample_functions_def createResource_def andThen_def)
  note inst = runChain_step_not_ready [OF host_eval nr, of "[]" "NotReadyError ''host''"
        "\<lparr>DeprecatedV5Binding = 0, Args = []\<rparr>" "(host_exec, [])" "[]" "(host_exec, [])" "''host''"
        NilValue "(host_exec, [])"]
  have rc: "ResultCallback sample_env x w = Inr (w @ [x])" for x w
    by (simp add: sample_env_def)
  have er: "errorResult sample_env (NotReadyError ''host'') ''chk1'' = host_result"
    by (simp add: sample_env_def sample_functions_def host_result_def)
  have world: "snd (stepTracker_Store 1 (host_exec, [] :: RawResult list)) = []"
    by (simp add: stepTracker_Store_def)
  have step: "runChain_step sample_env 1 [] (host_exec, []) = Inr (?st2, None)"
    using inst [THEN conjunct1]
    by (simp add: cps rc er world runChain_next_def CallsV1_Load_def)
  have kept: "cache (exec (fst (stepTracker_Store 1 (host_exec, [] :: RawResult list)))) 1 = None \<longrightarrow>
                cache (exec (fst ?st2)) 1 = None
              \<and> (\<forall>env2. runChain_eval env2 1 ?st2 = runRef env2 1 ?st2)"
    using inst [THEN conjunct2, THEN conjunct1, THEN spec, THEN spec, THEN mp, OF step]
    by (rule conjunct2)
  have again: "runChain_eval ready_env 1 ?st2 = runRef ready_env 1 ?st2"
    using kept absent by blast
  have create: "createResource sample_env ''host'' \<lparr>DeprecatedV5Binding = 0, Args = []\<rparr> 1 (host_exec, []) =
       Inr ((None, 0, Some (NotReadyError ''host'')), (host_exec, []))"
    using inst [THEN conjunct2, THEN conjunct2] nr a cr by simp
  have succeeds: "runChain_eval ready_env 1 ?st2 =
       Inr ((Some (RawData (Resource ''host'') (ResourceValue ''host'') None), 0, None),
            cache_Store 1 \<lparr>Result = Some (RawData (Resource ''host'') (ResourceValue ''host'') None),
                           IsStatic = True\<rparr> ?st2)"
    using again retry by (rule trans)
  show ?thesis
    using nr step absent succeeds create by (intro conjI)
qed


text \<open>
  C2, as amended. Let the evaluation of the chunk at \<open>r\<close> return an error \<open>e\<close> that
  is not a not-ready error. When it returns no result, the pass of the chain walk at
  \<open>r\<close> calls the registered callback exactly once with the error result for \<open>e\<close> when
  \<open>r\<close> has an entry in the callback record, and not at all otherwise; then, unless the
  cache holds a non-nil entry at \<open>r\<close>, it stores there the error value of type
  \<^verbatim>\<open>types.Unset\<close> with \<^verbatim>\<open>IsStatic\<close> false. When it returns a result \<open>d\<close> together
  with the error, the pass delivers \<open>d\<close> instead (once, when \<open>r\<close> has an entry in the
  callback record) and neither delivers nor caches the error. A static entry comes from
  \<^verbatim>\<open>createResource\<close> only: when the provider fails with such an error, it stores the
  error value of the resource's type with \<^verbatim>\<open>IsStatic\<close> true.
\<close>

theorem runChain_step_hard_error:
  assumes "\<not> isNotReadyError e"
  shows "(runChain_eval env r (stepTracker_Store r st) = Inr ((None, nextRef, Some e), st1) \<longrightarrow>
          runChain_step env r remaining st =
           (case (case map_of (callbackPoints (exec (fst st1))) r of
                    None \<Rightarrow> Inr (snd st1)
                  | Some codeID \<Rightarrow>
                      (case callback (exec (fst st1)) of
                         Decommissioned \<Rightarrow> Inr (snd st1)
                       | Registered \<Rightarrow> ResultCallback env (errorResult env e codeID) (snd st1))) of
              Inl a \<Rightarrow> Inl a
            | Inr w' \<Rightarrow>
                (let st3 =
                   (if cache (exec (fst st1)) r = None \<or> cache (exec (fst st1)) r = Some None
                    then (upd (\<lambda>x. x\<lparr>cache := (cache x)(r \<mapsto>
                                 Some \<lparr>Result = Some (RawData Unset NilValue (Some e)),
                                       IsStatic = False\<rparr>)\<rparr>) (fst st1), w')
                    else (fst st1, w'))
                 in Inr (st3, runChain_next r nextRef remaining st3))))
       \<and> (runChain_eval env r (stepTracker_Store r st) = Inr ((Some d, nextRef, Some e), st1) \<longrightarrow>
          runChain_step env r remaining st =
           (case (case map_of (callbackPoints (exec (fst st1))) r of
                    None \<Rightarrow> Inr (snd st1)
                  | Some codeID \<Rightarrow>
                      (case callback (exec (fst st1)) of
                         Decommissioned \<Rightarrow> Inr (snd st1)
                       | Registered \<Rightarrow> ResultCallback env \<lparr>Data = Some d, CodeID = codeID\<rparr> (snd st1))) of
              Inl a \<Rightarrow> Inl a
            | Inr w' \<Rightarrow> Inr ((fst st1, w'), runChain_next r nextRef remaining (fst st1, w'))))
       \<and> (args2resourceargsV1 env r (Args f) sa = Inr ((args, 0, None), sb) \<longrightarrow>
          CreateResource env name args sb = Inr ((v, Some e), sc) \<longrightarrow>
          createResource env name f r sa =
            Inr ((None, 0, Some e),
                 cache_Store r \<lparr>Result = Some (RawData (Resource name) NilValue (Some e)),
                                IsStatic = True\<rparr> sc))"
proof -
  have walk: "runChain_eval env r (stepTracker_Store r st) = Inr ((None, nextRef, Some e), st1) \<longrightarrow>
          runChain_step env r remaining st =
           (case (case map_of (callbackPoints (exec (fst st1))) r of
                    None \<Rightarrow> Inr (snd st1)
                  | Some codeID \<Rightarrow>
                      (case callback (exec (fst st1)) of
                         Decommissioned \<Rightarrow> Inr (snd st1)
                       | Registered \<Rightarrow> ResultCallback env (errorResult env e codeID) (snd st1))) of
              Inl a \<Rightarrow> Inl a
            | Inr w' \<Rightarrow>
                (let st3 =
                   (if cache (exec (fst st1)) r = None \<or> cache (exec (fst st1)) r = Some None
                    then (upd (\<lambda>x. x\<lparr>cache := (cache x)(r \<mapsto>
                                 Some \<lparr>Result = Some (RawData Unset NilValue (Some e)),
                                       IsStatic = False\<rparr>)\<rparr>) (fst st1), w')
                    else (fst st1, w'))
                 in Inr (st3, runChain_next r nextRef remaining st3)))"
    using assms
    by (cases st1)
       (auto simp: runChain_step_def runChain_report_def andThen_def call_callback_cases
          CacheV1_Load_def cache_Store_def CacheV1_Store_def Let_def
        split: option.split callback.split sum.split)
  have both: "runChain_eval env r (stepTracker_Store r st) = Inr ((Some d, nextRef, Some e), st1) \<longrightarrow>
          runChain_step env r remaining st =
           (case (case map_of (callbackPoints (exec (fst st1))) r of
                    None \<Rightarrow> Inr (snd st1)
                  | Some codeID \<Rightarrow>
                      (case callback (exec (fst st1)) of
                         Decommissioned \<Rightarrow> Inr (snd st1)
                       | Registered \<Rightarrow> ResultCallback env \<lparr>Data = Some d, CodeID = codeID\<rparr> (snd st1))) of
              Inl a \<Rightarrow> Inl a
            | Inr w' \<Rightarrow> Inr ((fst st1, w'), runChain_next r nextRef remaining (fst st1, w')))"
    by (cases st1)
       (auto simp: runChain_step_def runChain_report_def andThen_def call_callback_cases
        split: option.split callback.split sum.split)
  have res: "args2resourceargsV1 env r (Args f) sa = Inr ((args, 0, None), sb) \<longrightarrow>
          CreateResource env name args sb = Inr ((v, Some e), sc) \<longrightarrow>
          createResource env name f r sa =
            Inr ((None, 0, Some e),
                 cache_Store r \<lparr>Result = Some (RawData (Resource name) NilValue (Some e)),
                                IsStatic = True\<rparr> sc)"
    using assms by (simp add: createResource_def andThen_def)
  show ?thesis
    using walk both res by (intro conjI)
qed


lemma prop_eval:
  "runChain_eval sample_env 1 (stepTracker_Store 1 (prop_exec, [])) =
     Inr ((None, 0, Some prop_error), stepTracker_Store 1 (prop_exec, []))"
  by (simp add: prop_exec_def prop_error_def runChain_eval_def stepTracker_Store_def upd_def
      sample_exec_def CacheV1_Load_def CacheV1_Store_def runRef_def program_def property_chunk_def
      runChunk_def)

lemma prop_step:
  "runChain_step sample_env 1 [] (prop_exec, []) =
     Inr ((upd (\<lambda>x. x\<lparr>cache := [1 \<mapsto> Some \<lparr>Result = Some (RawData Unset NilValue (Some prop_error)),
                                              IsStatic = False\<rparr>]\<rparr>)
             (fst (stepTracker_Store 1 (prop_exec, []))),
           [\<lparr>Data = Some (RawData ZeroType NilValue (Some prop_error)), CodeID = ''chk1''\<rparr>]), None)"
  unfolding runChain_step_def prop_eval
  by (simp add: andThen_def runChain_report_def prop_exec_def stepTracker_Store_def upd_def sample_exec_def
      call_callback_def sample_env_def sample_functions_def runChain_next_def CallsV1_Load_def
      CacheV1_Load_def cache_Store_def CacheV1_Store_def prop_error_def)

text \<open>
  The claim C2 as stated fails: the lookup of the unknown property \<open>x\<close> fails with an
  error that is not a not-ready error, and the entry the chain walk caches for it has
  \<^verbatim>\<open>IsStatic\<close> false.
\<close>

theorem runChain_hard_error_counterexample:
  "\<not> isNotReadyError prop_error
   \<and> runChain_eval sample_env 1 (stepTracker_Store 1 (prop_exec, [])) =
       Inr ((None, 0, Some prop_error), stepTracker_Store 1 (prop_exec, []))
   \<and> runChain sample_env 1 1 (prop_exec, []) =
       Inr (upd (\<lambda>x. x\<lparr>cache := [1 \<mapsto> Some \<lparr>Result = Some (RawData Unset NilValue (Some prop_error)),
                                                IsStatic = False\<rparr>]\<rparr>)
              (fst (stepTracker_Store 1 (prop_exec, []))),
            [\<lparr>Data = Some (RawData ZeroType NilValue (Some prop_error)), CodeID = ''chk1''\<rparr>])
   \<and> IsStatic \<lparr>Result = Some (RawData Unset NilValue (Some prop_error)), IsStatic = False\<rparr> \<noteq> True"
proof -
  have run: "runChain sample_env 1 1 (prop_exec, []) =
       Inr (upd (\<lambda>x. x\<lparr>cache := [1 \<mapsto> Some \<lparr>Result = Some (RawData Unset NilValue (Some prop_error)),
                                                IsStatic = False\<rparr>]\<rparr>)
              (fst (stepTracker_Store 1 (prop_exec, []))),
            [\<lparr>Data = Some (RawData ZeroType NilValue (Some prop_error)), CodeID = ''chk1''\<rparr>])"
    apply (simp add: runChain_def)
    apply (subst prop_step)
    apply simp
    done
  show ?thesis
    using run prop_eval by (simp add: prop_error_def)
qed

lemma partial_eval:
  "runChain_eval partial_env 1 (stepTracker_Store 1 (partial_exec, [])) =
     Inr ((Some partial_value, 0, Some (ErrorString ''partial'')), stepTracker_Store 1 (partial_exec, []))"
  by (simp add: partial_exec_def partial_env_def runChain_eval_def stepTracker_Store_def upd_def
      sample_exec_def CacheV1_Load_def CacheV1_Store_def runRef_def program_def property_chunk_def
      runChunk_def andThen_def)

theorem runChain_step_hard_error_witness:
  "\<not> isNotReadyError prop_error
   \<and> runChain_step sample_env 1 [] (prop_exec, []) =
       Inr ((upd (\<lambda>x. x\<lparr>cache := [1 \<mapsto> Some \<lparr>Result = Some (RawData Unset NilValue (Some prop_error)),
                                                IsStatic = False\<rparr>]\<rparr>)
               (fst (stepTracker_Store 1 (prop_exec, [] :: RawResult list))),
             [\<lparr>Data = Some (RawData ZeroType NilValue (Some prop_error)), CodeID = ''chk1''\<rparr>]), None)
   \<and> runChain_eval partial_env 1 (stepTracker_Store 1 (partial_exec, [])) =
       Inr ((Some partial_value, 0, Some (ErrorString ''partial'')), stepTracker_Store 1 (partial_exec, []))
   \<and> runChain_step partial_env 1 [] (partial_exec, []) =
       Inr ((fst (stepTracker_Store 1 (partial_exec, [] :: RawResult list)),
             [\<lparr>Data = Some partial_value, CodeID = ''chk1''\<rparr>]), None)
   \<and> cache (exec (fst (stepTracker_Store 1 (partial_exec, [] :: RawResult list)))) 1 = None
   \<and> createResource sample_env ''nope'' \<lparr>DeprecatedV5Binding = 0, Args = []\<rparr> 1 (prop_exec, []) =
       Inr ((None, 0, Some (ErrorString ''cannot create resource nope'')),
            cache_Store 1 \<lparr>Result = Some (RawData (Resource ''nope'') NilValue
                                           (Some (ErrorString ''cannot create resource nope''))),
                           IsStatic = True\<rparr> (prop_exec, []))"
proof -
  have hard: "\<not> isNotReadyError prop_error"
    by (simp add: prop_error_def)
  have hard': "\<not> isNotReadyError (ErrorString ''cannot create resource nope'')"
    by simp
  have hard'': "\<not> isNotReadyError (ErrorString ''partial'')"
    by simp
  have a: "args2resourceargsV1 sample_env 1 (Args \<lparr>DeprecatedV5Binding = 0, Args = []\<rparr>) (prop_exec, []) =
             Inr (([], 0, None), (prop_exec, []))"
    by (simp add: sample_env_def sample_functions_def)
  have cr: "CreateResource sample_env ''nope'' [] (prop_exec, []) =
             Inr ((NilValue, Some (ErrorString ''cannot create resource nope'')), (prop_exec, []))"
    by (simp add: sample_env_def sample_functions_def)
  have rc: "ResultCallback sample_env x w = Inr (w @ [x])" "ResultCallback partial_env x w = Inr (w @ [x])"
    for x and w :: "RawResult list"
    by (simp_all add: sample_env_def partial_env_def)
  have er: "errorResult sample_env prop_error ''chk1'' =
              \<lparr>Data = Some (RawData ZeroType NilValue (Some prop_error)), CodeID = ''chk1''\<rparr>"
    by (simp add: sample_env_def sample_functions_def)
  have p: "map_of (callbackPoints (exec (fst (stepTracker_Store 1 (prop_exec, [] :: RawResult list))))) 1 = Some ''chk1''"
    "callback (exec (fst (stepTracker_Store 1 (prop_exec, [] :: RawResult list)))) = Registered"
    "calls (exec (fst (stepTracker_Store 1 (prop_exec, [] :: RawResult list)))) = Map.empty"
    "cache (exec (fst (stepTracker_Store 1 (prop_exec, [] :: RawResult list)))) = Map.empty"
    "snd (stepTracker_Store 1 (prop_exec, [] :: RawResult list)) = []"
    by (simp_all add: prop_exec_def stepTracker_Store_def upd_def sample_exec_def)
  have q: "map_of (callbackPoints (exec (fst (stepTracker_Store 1 (partial_exec, [] :: RawResult list))))) 1 = Some ''chk1''"
    "callback (exec (fst (stepTracker_Store 1 (partial_exec, [] :: RawResult list)))) = Registered"
    "calls (exec (fst (stepTracker_Store 1 (partial_exec, [] :: RawResult list)))) = Map.empty"
    "cache (exec (fst (stepTracker_Store 1 (partial_exec, [] :: RawResult list)))) = Map.empty"
    "snd (stepTracker_Store 1 (partial_exec, [] :: RawResult list)) = []"
    by (simp_all add: partial_exec_def stepTracker_Store_def upd_def sample_exec_def)
  have first: "runChain_step sample_env 1 [] (prop_exec, []) =
       Inr ((upd (\<lambda>x. x\<lparr>cache := [1 \<mapsto> Some \<lparr>Result = Some (RawData Unset NilValue (Some prop_error)),
                                                IsStatic = False\<rparr>]\<rparr>)
               (fst (stepTracker_Store 1 (prop_exec, [] :: RawResult list))),
             [\<lparr>Data = Some (RawData ZeroType NilValue (Some prop_error)), CodeID = ''chk1''\<rparr>]), None)"
    using runChain_step_hard_error [OF hard, THEN conjunct1, THEN mp, OF prop_eval, of "[]"]
    by (simp add: p rc er upd_def runChain_next_def CallsV1_Load_def)
  have second: "runChain_step partial_env 1 [] (partial_exec, []) =
       Inr ((fst (stepTracker_Store 1 (partial_exec, [] :: RawResult list)),
             [\<lparr>Data = Some partial_value, CodeID = ''chk1''\<rparr>]), None)"
    using runChain_step_hard_error [OF hard'', THEN conjunct2, THEN conjunct1, THEN mp, OF partial_eval, of "[]"]
    by (simp add: q rc runChain_next_def CallsV1_Load_def)
  have third: "createResource sample_env ''nope'' \<lparr>DeprecatedV5Binding = 0, Args = []\<rparr> 1 (prop_exec, []) =
       Inr ((None, 0, Some (ErrorString ''cannot create resource nope'')),
            cache_Store 1 \<lparr>Result = Some (RawData (Resource ''nope'') NilValue
                                           (Some (ErrorString ''cannot create resource nope''))),
                           IsStatic = True\<rparr> (prop_exec, []))"
    using runChain_step_hard_error [OF hard', THEN conjunct2, THEN conjunct2, THEN mp, THEN mp, OF a cr]
    by simp
  have absent: "cache (exec (fst (stepTracker_Store 1 (partial_exec, [] :: RawResult list)))) 1 = None"
    by (simp add: q)
  show ?thesis
    using hard first partial_eval second absent third by (intro conjI)
qed


subsection \<open>Forward propagation\<close>

text \<open>
  C8, as amended. For a ref with an entry in the callback record, on an executor whose
  callback is registered, one call of \<^verbatim>\<open>triggerChain\<close> first delivers the given value
  to the callback. When refs depend on the ref, it then walks the chain of each of them.
  When none does, it delivers a second result for the same ref: the cached result (the
  same value again, when the trigger reports what is cached), or an error result when
  the cache has no entry.
\<close>

theorem triggerChain_deliveries:
  assumes "map_of (callbackPoints (exec c)) ref = Some codeID"
    and "callback (exec c) = Registered"
    and "ResultCallback env \<lparr>Data = data, CodeID = codeID\<rparr> w = Inr w1"
  shows "triggerChain env fuel ref data (c, w) =
           (case calls (exec c) ref of
              Some nxt \<Rightarrow>
                if nxt = []
                then Inl (Panic ''internal state error: cannot trigger next call on chain because it points to a zero ref'')
                else forEach (runChain env fuel) nxt (c, w1)
            | None \<Rightarrow>
                (case cache (exec c) ref of
                   None \<Rightarrow>
                     andThen (ResultCallback env
                                (errorResultMsg env (''exec> cannot find results to chunk reference '' @
                                   FormatInt ref) codeID) w1)
                       (\<lambda>w2. Inr (c, w2))
                 | Some None \<Rightarrow> Inl (Panic ''nil pointer dereference'')
                 | Some (Some sc) \<Rightarrow>
                     andThen (ResultCallback env \<lparr>Data = Result sc, CodeID = codeID\<rparr> w1)
                       (\<lambda>w2. Inr (c, w2))))"
  using assms
  by (simp add: triggerChain_def call_callback_cases andThen_def CallsV1_Load_def CacheV1_Load_def
      split: option.split sum.split)

theorem triggerChain_deliveries_witness:
  "triggerChain sample_env 1 1 (Some os_value) (os_exec, []) =
     Inr (os_exec, [\<lparr>Data = Some os_value, CodeID = ''chk1''\<rparr>,
                    \<lparr>Data = Some os_value, CodeID = ''chk1''\<rparr>])"
proof -
  have cp: "map_of (callbackPoints (exec os_exec)) 1 = Some ''chk1''"
    by (simp add: os_exec_def upd_def sample_exec_def)
  have cb: "callback (exec os_exec) = Registered"
    by (simp add: os_exec_def upd_def sample_exec_def)
  have first: "ResultCallback sample_env \<lparr>Data = Some os_value, CodeID = ''chk1''\<rparr> [] =
                 Inr [\<lparr>Data = Some os_value, CodeID = ''chk1''\<rparr>]"
    by (simp add: sample_env_def)
  show ?thesis
    using triggerChain_deliveries [OF cp cb first, of 1]
    by (simp add: os_exec_def upd_def sample_exec_def andThen_def sample_env_def)
qed

text \<open>
  The claim C8 as stated fails: ref \<open>1\<close> holds a static cached value and has a callback
  entry and no dependents; one \<^verbatim>\<open>triggerChain\<close> that reports this value delivers it
  to the callback twice.
\<close>

theorem triggerChain_twice_counterexample:
  "cache (exec os_exec) 1 = Some (Some \<lparr>Result = Some os_value, IsStatic = True\<rparr>)
   \<and> triggerChain sample_env 1 1 (Some os_value) (os_exec, []) =
       Inr (os_exec, [\<lparr>Data = Some os_value, CodeID = ''chk1''\<rparr>,
                      \<lparr>Data = Some os_value, CodeID = ''chk1''\<rparr>])"
  by (simp add: triggerChain_def os_exec_def upd_def sample_exec_def call_callback_def andThen_def
      sample_env_def CallsV1_Load_def CacheV1_Load_def)


subsection \<open>The callback of a block\<close>

lemma length_remdups_snoc:
  "k \<notin> set xs \<Longrightarrow> length (remdups (xs @ [k])) = Suc (length (remdups xs))"
  by (induction xs) auto

lemma map_len_update:
  "map_len (AList.update k v m) = (if k \<in> fst ` set m then map_len m else Suc (map_len m))"
  by (simp add: map_len_def map_keys_def update_keys length_remdups_snoc)

lemma map_of_update_same: "map_of (AList.update k v m) k = Some v"
  by (simp add: update_conv')

text \<open>
  C7. For a block that is not single-valued, a result with non-nil data is recorded under
  its code ID: a code ID that is already recorded is overwritten and the number of
  entries stays, a new one adds one entry; the first error of a code ID is appended to
  the accumulated error. When the number of entries then equals the number of
  entrypoints plus datapoints of the sub-program, the composite value (type
  \<^verbatim>\<open>types.Block\<close>, the entries, with the receiver under the key \<open>_\<close> when the receiver
  is a resource, and the accumulated error) is cached at the parent ref with
  \<^verbatim>\<open>IsStatic\<close> true and \<^verbatim>\<open>triggerChain\<close> is called with it. Otherwise the parent
  executor is left as it is.
\<close>

theorem runBlock_callback_aggregates:
  assumes "\<not> SingleValue func"
    and "Data res = Some d"
  shows "let seen = (CodeID res \<in> fst ` set (blockResult vars));
             entries = AList.update (CodeID res) (Some d) (blockResult vars);
             err = (if \<not> seen \<and> Error d \<noteq> None
                    then Some (multierror_Append (anyError vars) (the (Error d)))
                    else anyError vars);
             composite =
               (case bind of
                  None \<Rightarrow> entries
                | Some b \<Rightarrow>
                    (case Value b of
                       ResourceValue rr \<Rightarrow>
                         if IsResource (Type b)
                         then AList.update ''_'' (Some (RawData (Type b) (ResourceValue rr) None)) entries
                         else entries
                     | _ \<Rightarrow> entries));
             data = RawData Block (MapValue composite) err
         in map_len entries = (if seen then map_len (blockResult vars) else Suc (map_len (blockResult vars)))
          \<and> map_of entries (CodeID res) = Some (Some d)
          \<and> runBlock_callback env fuel func bind ref res (st, vars) =
              (if map_len entries = length (Entrypoints func) + length (Datapoints func)
               then andThen (triggerChain env fuel ref (Some data)
                               (cache_Store ref \<lparr>Result = Some data, IsStatic = True\<rparr> st))
                      (\<lambda>st'. Inr (st', \<lparr>blockResult = composite, anyError = err\<rparr>))
               else Inr (st, \<lparr>blockResult = entries, anyError = err\<rparr>))"
  using assms
  by (simp add: Let_def runBlock_callback_def map_of_eq_None_iff map_len_update map_of_update_same
      split: option.split Value.split)


theorem runBlock_callback_aggregates_witness:
  "runBlock_callback sample_env 1 block_code (Some os_value) 2 \<lparr>Data = Some field_a, CodeID = ''a''\<rparr>
     ((block_parent, []), \<lparr>blockResult = [], anyError = None\<rparr>) =
     Inr ((block_parent, []), \<lparr>blockResult = [(''a'', Some field_a)], anyError = None\<rparr>)
   \<and> runBlock_callback sample_env 1 block_code (Some os_value) 2 \<lparr>Data = Some field_b, CodeID = ''b''\<rparr>
     ((block_parent, []), \<lparr>blockResult = [(''a'', Some field_a)], anyError = None\<rparr>) =
     Inr ((upd (\<lambda>e. e\<lparr>cache := [2 \<mapsto> Some \<lparr>Result = Some block_data, IsStatic = True\<rparr>]\<rparr>) block_parent,
           [\<lparr>Data = Some block_data, CodeID = ''chk2''\<rparr>, \<lparr>Data = Some block_data, CodeID = ''chk2''\<rparr>]),
          \<lparr>blockResult = [(''a'', Some field_a), (''b'', Some field_b), (''_'', Some os_value)],
           anyError = Some (MultiError [ErrorString ''no such field''])\<rparr>)"
proof -
  have multi: "\<not> SingleValue block_code"
    by (simp add: block_code_def)
  have trigger: "triggerChain sample_env 1 2 (Some block_data)
       (cache_Store 2 \<lparr>Result = Some block_data, IsStatic = True\<rparr> (block_parent, [])) =
     Inr (upd (\<lambda>e. e\<lparr>cache := [2 \<mapsto> Some \<lparr>Result = Some block_data, IsStatic = True\<rparr>]\<rparr>) block_parent,
          [\<lparr>Data = Some block_data, CodeID = ''chk2''\<rparr>, \<lparr>Data = Some block_data, CodeID = ''chk2''\<rparr>])"
    by (simp add: triggerChain_def block_parent_def cache_Store_def CacheV1_Store_def upd_def
        sample_exec_def call_callback_def andThen_def sample_env_def CallsV1_Load_def CacheV1_Load_def)
  have first: "runBlock_callback sample_env 1 block_code (Some os_value) 2 \<lparr>Data = Some field_a, CodeID = ''a''\<rparr>
     ((block_parent, []), \<lparr>blockResult = [], anyError = None\<rparr>) =
     Inr ((block_parent, []), \<lparr>blockResult = [(''a'', Some field_a)], anyError = None\<rparr>)"
    using runBlock_callback_aggregates [OF multi, of "\<lparr>Data = Some field_a, CodeID = ''a''\<rparr>" field_a
        "\<lparr>blockResult = [], anyError = None\<rparr>" "Some os_value" sample_env 1 2 "(block_parent, [])"]
    by (simp add: Let_def map_len_def map_keys_def block_code_def field_a_def os_value_def)
  have second: "runBlock_callback sample_env 1 block_code (Some os_value) 2 \<lparr>Data = Some field_b, CodeID = ''b''\<rparr>
     ((block_parent, []), \<lparr>blockResult = [(''a'', Some field_a)], anyError = None\<rparr>) =
     Inr ((upd (\<lambda>e. e\<lparr>cache := [2 \<mapsto> Some \<lparr>Result = Some block_data, IsStatic = True\<rparr>]\<rparr>) block_parent,
           [\<lparr>Data = Some block_data, CodeID = ''chk2''\<rparr>, \<lparr>Data = Some block_data, CodeID = ''chk2''\<rparr>]),
          \<lparr>blockResult = [(''a'', Some field_a), (''b'', Some field_b), (''_'', Some os_value)],
           anyError = Some (MultiError [ErrorString ''no such field''])\<rparr>)"
    using runBlock_callback_aggregates [OF multi, of "\<lparr>Data = Some field_b, CodeID = ''b''\<rparr>" field_b
        "\<lparr>blockResult = [(''a'', Some field_a)], anyError = None\<rparr>" "Some os_value" sample_env 1 2
        "(block_parent, [])"] trigger
    by (simp add: Let_def map_len_def map_keys_def block_code_def field_b_def os_value_def
        block_data_def andThen_def)
  show ?thesis
    using first second by (rule conjI)
qed


subsection \<open>Teardown\<close>

lemma Unregister_watchers_acc:
  "Unregister_watchers cancel keys errs r =
     (errs @ fst (Unregister_watchers cancel keys [] r), snd (Unregister_watchers cancel keys [] r))"
proof (induction keys arbitrary: errs r)
  case Nil
  then show ?case by simp
next
  case (Cons key keys)
  obtain err r1 where c: "cancel key r = (err, r1)" by (cases "cancel key r")
  show ?case
  proof (cases err)
    case None
    then show ?thesis using c Cons.IH [of errs r1] by simp
  next
    case (Some x)
    then show ?thesis
      using c Cons.IH [of "errs @ [x]" r1] Cons.IH [of "[x]" r1] by simp
  qed
qed

lemma Unregister_watchers_append:
  "Unregister_watchers cancel (ks1 @ ks2) [] r =
     (fst (Unregister_watchers cancel ks1 [] r) @
        fst (Unregister_watchers cancel ks2 [] (snd (Unregister_watchers cancel ks1 [] r))),
      snd (Unregister_watchers cancel ks2 [] (snd (Unregister_watchers cancel ks1 [] r))))"
proof (induction ks1 arbitrary: r)
  case Nil
  then show ?case by simp
next
  case (Cons key keys)
  obtain err r1 where c: "cancel key r = (err, r1)" by (cases "cancel key r")
  show ?case
  proof (cases err)
    case None
    then show ?thesis using c Cons.IH [of r1] by simp
  next
    case (Some x)
    have a: "Unregister_watchers cancel (keys @ ks2) [x] r1 =
            ([x] @ fst (Unregister_watchers cancel (keys @ ks2) [] r1),
             snd (Unregister_watchers cancel (keys @ ks2) [] r1))"
      by (rule Unregister_watchers_acc)
    have b: "Unregister_watchers cancel keys [x] r1 =
            ([x] @ fst (Unregister_watchers cancel keys [] r1),
             snd (Unregister_watchers cancel keys [] r1))"
      by (rule Unregister_watchers_acc)
    show ?thesis using Some c Cons.IH [of r1] by (simp add: a b)
  qed
qed

lemma Unregister_sound:
  "fst (Unregister cancel c r) =
      (if fst (Unregister_watchers cancel (Unregister_keys c) [] r) = [] then None
       else Some (ErrorString ''multiple errors unregistering''))
   \<and> snd (snd (Unregister cancel c r)) = snd (Unregister_watchers cancel (Unregister_keys c) [] r)
   \<and> decommissioned (fst (snd (Unregister cancel c r)))"
  and Unregister_blocks_sound:
  "(fst (Unregister_blocks cancel bs errs r) = [] \<longleftrightarrow>
      errs = [] \<and> fst (Unregister_watchers cancel (concat (map Unregister_keys bs)) [] r) = [])
   \<and> snd (snd (Unregister_blocks cancel bs errs r)) =
      snd (Unregister_watchers cancel (concat (map Unregister_keys bs)) [] r)
   \<and> list_all decommissioned (fst (snd (Unregister_blocks cancel bs errs r)))"
proof (induction cancel c r and cancel bs errs r rule: Unregister_Unregister_blocks.induct)
  case (1 cancel e bs r)
  let ?K = "concat (map Unregister_keys bs)"
  obtain e1 bs' r1 where ub: "Unregister_blocks cancel bs [] r = (e1, bs', r1)"
    by (cases "Unregister_blocks cancel bs [] r")
  have q: "(e1 = [] \<longleftrightarrow> fst (Unregister_watchers cancel ?K [] r) = [])"
    "r1 = snd (Unregister_watchers cancel ?K [] r)" "list_all decommissioned bs'"
    using "1.IH" ub by simp_all
  have w: "Unregister_watchers cancel (watcherIds e) e1 r1 =
       (e1 @ fst (Unregister_watchers cancel (watcherIds e) [] r1),
        snd (Unregister_watchers cancel (watcherIds e) [] r1))"
    by (rule Unregister_watchers_acc)
  have res: "Unregister cancel (LeiseExecutorV1 e bs) r =
       ((if e1 @ fst (Unregister_watchers cancel (watcherIds e) [] r1) = [] then None
         else Some (ErrorString ''multiple errors unregistering'')),
        LeiseExecutorV1 (e\<lparr>callback := Decommissioned\<rparr>) bs',
        snd (Unregister_watchers cancel (watcherIds e) [] r1))"
    by (simp add: ub w)
  have keys: "Unregister_watchers cancel (Unregister_keys (LeiseExecutorV1 e bs)) [] r =
       (fst (Unregister_watchers cancel ?K [] r) @ fst (Unregister_watchers cancel (watcherIds e) [] r1),
        snd (Unregister_watchers cancel (watcherIds e) [] r1))"
    unfolding q(2) by (simp add: Unregister_watchers_append)
  show ?case
    unfolding res keys using q(1,3) by simp
next
  case (2 cancel errorList r)
  then show ?case by simp
next
  case (3 cancel b bs errorList r)
  obtain err b' r1 where u: "Unregister cancel b r = (err, b', r1)"
    by (cases "Unregister cancel b r")
  let ?errs1 = "case err of Some x \<Rightarrow> errorList @ [x] | None \<Rightarrow> errorList"
  obtain e2 bs' r2 where ub: "Unregister_blocks cancel bs ?errs1 r1 = (e2, bs', r2)"
    by (cases "Unregister_blocks cancel bs ?errs1 r1")
  have p: "err = (if fst (Unregister_watchers cancel (Unregister_keys b) [] r) = [] then None
                  else Some (ErrorString ''multiple errors unregistering''))"
    "r1 = snd (Unregister_watchers cancel (Unregister_keys b) [] r)" "decommissioned b'"
    using "3.IH"(1) u by simp_all
  have q: "(e2 = [] \<longleftrightarrow>
      ?errs1 = [] \<and> fst (Unregister_watchers cancel (concat (map Unregister_keys bs)) [] r1) = [])"
    "r2 = snd (Unregister_watchers cancel (concat (map Unregister_keys bs)) [] r1)"
    "list_all decommissioned bs'"
    using "3.IH"(2) [of err "(b', r1)" b' r1] u ub by simp_all
  have res: "Unregister_blocks cancel (b # bs) errorList r = (e2, b' # bs', r2)"
    by (simp add: u ub)
  have keys: "Unregister_watchers cancel (concat (map Unregister_keys (b # bs))) [] r =
       (fst (Unregister_watchers cancel (Unregister_keys b) [] r) @
          fst (Unregister_watchers cancel (concat (map Unregister_keys bs)) [] r1),
        snd (Unregister_watchers cancel (concat (map Unregister_keys bs)) [] r1))"
    unfolding p(2) by (simp add: Unregister_watchers_append)
  have errs1: "?errs1 = [] \<longleftrightarrow>
       errorList = [] \<and> fst (Unregister_watchers cancel (Unregister_keys b) [] r) = []"
    unfolding p(1) by simp
  show ?case
    unfolding res keys using q errs1 p(3) by simp
qed


text \<open>
  C9, as amended. \<^verbatim>\<open>Unregister\<close> replaces the callback of the executor and of every
  block executor below it with the no-op, and calls the provider's \<^verbatim>\<open>Unregister\<close> for
  every watch of every one of them, whether or not an earlier call failed: the provider
  is left as by one loop over all these watches. It returns nil when none of the calls
  failed, and otherwise the one fixed error \<open>multiple errors unregistering\<close>, which
  does not carry the errors that were met.
\<close>

theorem Unregister_best_effort:
  "fst (Unregister cancel c r) =
      (if fst (Unregister_watchers cancel (Unregister_keys c) [] r) = [] then None
       else Some (ErrorString ''multiple errors unregistering''))
   \<and> snd (snd (Unregister cancel c r)) = snd (Unregister_watchers cancel (Unregister_keys c) [] r)
   \<and> decommissioned (fst (snd (Unregister cancel c r)))"
  by (rule Unregister_sound)

theorem Unregister_best_effort_witness:
  "fst (Unregister sample_cancel (watching [] [watching [''w1''] [], watching [''w2''] []]) []) =
      Some (ErrorString ''multiple errors unregistering'')
   \<and> snd (snd (Unregister sample_cancel (watching [] [watching [''w1''] [], watching [''w2''] []]) [])) =
      [''w1'', ''w2'']
   \<and> decommissioned (fst (snd (Unregister sample_cancel (watching [] [watching [''w1''] [], watching [''w2''] []]) [])))"
  using Unregister_best_effort [of sample_cancel "watching [] [watching [''w1''] [], watching [''w2''] []]" "[]"]
  by (simp add: watching_def upd_def sample_exec_def sample_cancel_def)

text \<open>
  The claim C9 as stated fails in its returned value: the cancellation of \<open>w1\<close> fails
  with \<open>boom\<close>; the error \<^verbatim>\<open>Unregister\<close> returns is not the merge of the errors met
  and does not hold \<open>boom\<close>.
\<close>

theorem Unregister_not_merged_counterexample:
  "Unregister_watchers sample_cancel (Unregister_keys (watching [''w1''] [])) [] [] =
      ([ErrorString ''boom''], [''w1''])
   \<and> fst (Unregister sample_cancel (watching [''w1''] []) []) =
      Some (ErrorString ''multiple errors unregistering'')
   \<and> ErrorString ''boom'' \<notin> set (multierror_parts (ErrorString ''multiple errors unregistering''))
   \<and> fst (Unregister sample_cancel (watching [''w1''] []) []) \<noteq>
      Some (multierror_Append None (ErrorString ''boom''))"
  by (simp add: watching_def upd_def sample_exec_def sample_cancel_def)


subsection \<open>Run\<close>

lemma advances_refl: "advances st st"
  by (simp add: advances_def)

lemma advances_trans: "advances a b \<Longrightarrow> advances b c \<Longrightarrow> advances a c"
  by (auto simp: advances_def)

lemma andThen_Inr: "andThen m f = Inr y \<Longrightarrow> \<exists>x. m = Inr x \<and> f x = Inr y"
  by (cases m) (simp_all add: andThen_def)

lemma advances_cache_Store: "advances st (cache_Store k sc st)"
  by (cases st) (simp add: advances_def cache_Store_def upd_def)

lemma advances_stepTracker_Store: "advances st (stepTracker_Store k st)"
  by (cases st) (auto simp: advances_def stepTracker_Store_def upd_def CacheV1_Store_def)

lemma tracked_stepTracker_Store: "k \<in> dom (stepTracker (exec (fst (stepTracker_Store k st))))"
  by (cases st) (simp add: stepTracker_Store_def upd_def CacheV1_Store_def)

lemma advances_call_callback: "call_callback env x st = Inr st' \<Longrightarrow> advances st st'"
  by (cases st) (auto simp: call_callback_def advances_def andThen_def split: callback.splits sum.splits)

lemma advances_connectRef: "action_advances (connectRef src dst)"
  by (auto simp: action_advances_def connectRef_def advances_def upd_def Let_def
      split: prod.splits if_splits)

lemma env_resolveValue:
  "env_advances env \<Longrightarrow> resolveValue env p ref st = Inr (x, st') \<Longrightarrow> advances st st'"
  unfolding env_advances_def action_advances_def by fast

lemma env_runBoundFunctionV1:
  "env_advances env \<Longrightarrow> runBoundFunctionV1 env b chunk ref st = Inr (x, st') \<Longrightarrow> advances st st'"
  unfolding env_advances_def action_advances_def by blast

lemma env_handleGlobalV1:
  "env_advances env \<Longrightarrow> handleGlobalV1 env name = (Some h, True) \<Longrightarrow>
   h f ref st = Inr (x, st') \<Longrightarrow> advances st st'"
  unfolding env_advances_def action_advances_def by blast

lemma env_args2resourceargsV1:
  "env_advances env \<Longrightarrow> args2resourceargsV1 env ref args st = Inr (x, st') \<Longrightarrow> advances st st'"
  unfolding env_advances_def action_advances_def by blast

lemma env_CreateResource:
  "env_advances env \<Longrightarrow> CreateResource env name args st = Inr (x, st') \<Longrightarrow> advances st st'"
  unfolding env_advances_def action_advances_def by blast

lemma cache_Store_keeps:
  "callbackPoints (exec (fst (cache_Store k sc st))) = callbackPoints (exec (fst st))"
  "stepTracker (exec (fst (cache_Store k sc st))) = stepTracker (exec (fst st))"
  by (cases st, simp add: cache_Store_def upd_def)+

lemma advances_createResource:
  assumes "env_advances env" and "createResource env name f ref st = Inr (x, st')"
  shows "advances st st'"
  using assms(2) unfolding createResource_def
  by (auto simp: andThen_def Let_def advances_def subset_iff domIff cache_Store_keeps
      split: sum.splits prod.splits option.splits if_splits
      dest!: env_args2resourceargsV1 [OF assms(1)] env_CreateResource [OF assms(1)])

lemma advances_runGlobalFunction:
  assumes "env_advances env" and "runGlobalFunction env chunk f ref st = Inr (x, st')"
  shows "advances st st'"
proof (cases "handleGlobalV1 env (ChunkId chunk)")
  case (Pair h ok)
  show ?thesis
  proof (cases ok)
    case False
    then show ?thesis
      using assms Pair by (simp add: runGlobalFunction_def advances_createResource)
  next
    case True
    show ?thesis
    proof (cases h)
      case None
      then show ?thesis
        using assms(2) Pair True by (auto simp: runGlobalFunction_def advances_def subset_iff domIff)
    next
      case (Some handler)
      then show ?thesis
        using assms(2) Pair True
        by (auto simp: runGlobalFunction_def andThen_def advances_def subset_iff domIff cache_Store_keeps
            split: sum.splits prod.splits if_splits
            dest!: env_handleGlobalV1 [OF assms(1), of "ChunkId chunk" handler])
    qed
  qed
qed

lemma advances_runFunction:
  assumes "env_advances env" and "runFunction env chunk ref st = Inr (x, st')"
  shows "advances st st'"
  using assms(2) unfolding runFunction_def
  by (auto simp: Let_def advances_def subset_iff domIff cache_Store_keeps connectRef_def upd_def
      split: prod.splits option.splits if_splits bool.splits
      dest!: env_runBoundFunctionV1 [OF assms(1)] advances_runGlobalFunction [OF assms(1)])

lemma advances_runChunk:
  assumes "env_advances env" and "runChunk env chunk ref st = Inr (x, st')"
  shows "advances st st'"
  using assms(2) unfolding runChunk_def
  by (auto simp: andThen_def advances_def subset_iff domIff cache_Store_keeps
      split: Chunk_Call.splits sum.splits prod.splits option.splits if_splits
      dest!: env_resolveValue [OF assms(1)] advances_runFunction [OF assms(1)])

lemma advances_runRef:
  assumes "env_advances env" and "runRef env ref st = Inr (x, st')"
  shows "advances st st'"
  using assms(2) unfolding runRef_def
  by (auto simp: Let_def advances_def subset_iff domIff
      split: option.splits if_splits
      dest!: advances_runChunk [OF assms(1)])


lemma stepTracker_Store_keeps:
  "callbackPoints (exec (fst (stepTracker_Store k st))) = callbackPoints (exec (fst st))"
  "stepTracker (exec (fst (stepTracker_Store k st))) = (stepTracker (exec (fst st)))(k \<mapsto> None)"
  by (cases st, simp add: stepTracker_Store_def upd_def CacheV1_Store_def)+

lemma advances_runChain_eval:
  assumes "env_advances env" and "runChain_eval env r st = Inr (x, st')"
  shows "advances st st'"
  using assms(2) unfolding runChain_eval_def
  by (auto simp: advances_def subset_iff domIff
      split: prod.splits option.splits bool.splits if_splits
      dest!: advances_runRef [OF assms(1)])

lemma advances_runChain_report:
  assumes "runChain_report env r res err st = Inr st'"
  shows "advances st st'"
  using assms unfolding runChain_report_def
  by (auto simp: andThen_def advances_def subset_iff domIff cache_Store_keeps
      split: sum.splits option.splits if_splits
      dest!: advances_call_callback)

lemma advances_runChain_step:
  assumes "env_advances env" and "runChain_step env r remaining st = Inr (st', nx)"
  shows "advances st st'" and "r \<in> dom (stepTracker (exec (fst st')))"
  using assms(2) unfolding runChain_step_def
  by (auto simp: andThen_def advances_def subset_iff domIff stepTracker_Store_keeps
      split: sum.splits prod.splits if_splits
      dest!: advances_runChain_eval [OF assms(1)] advances_runChain_report)

lemma advances_tracked:
  "advances st st' \<Longrightarrow> r \<in> dom (stepTracker (exec (fst st))) \<Longrightarrow> r \<in> dom (stepTracker (exec (fst st')))"
  by (auto simp: advances_def)

lemma advances_runChain_loop:
  assumes "env_advances env"
  shows "runChain_loop env fuel nextRef remaining st = Inr st' \<Longrightarrow>
         advances st st' \<and> (nextRef \<noteq> 0 \<longrightarrow> nextRef \<in> dom (stepTracker (exec (fst st'))))"
proof (induction fuel arbitrary: nextRef remaining st)
  case 0
  then show ?case by (simp add: advances_refl split: if_splits)
next
  case (Suc n)
  show ?case
  proof (cases "nextRef = 0")
    case True
    then show ?thesis using Suc.prems by (simp add: advances_refl)
  next
    case False
    then obtain st1 nx where step: "runChain_step env nextRef remaining st = Inr (st1, nx)"
      and rest: "(case nx of None \<Rightarrow> Inr st1
                  | Some (nextRef', remaining') \<Rightarrow> runChain_loop env n nextRef' remaining' st1) = Inr st'"
      using Suc.prems by (auto split: sum.splits prod.splits option.splits)
    have a: "advances st st1" and t: "nextRef \<in> dom (stepTracker (exec (fst st1)))"
      using advances_runChain_step [OF assms step] by simp_all
    show ?thesis
    proof (cases nx)
      case None
      then show ?thesis using rest a t False by simp
    next
      case (Some p)
      obtain nr rem where p: "p = (nr, rem)" by (cases p)
      have "runChain_loop env n nr rem st1 = Inr st'"
        using rest Some p by simp
      then have b: "advances st1 st'"
        using Suc.IH by blast
      have c: "advances st st'"
        using a b by (rule advances_trans)
      have d: "nextRef \<in> dom (stepTracker (exec (fst st')))"
        using b t by (rule advances_tracked)
      show ?thesis
        using c d by simp
    qed
  qed
qed

lemma advances_Run_entry:
  assumes "env_advances env" and "Run_entry env fuel ref st = Inr st'"
  shows "advances st st'" and "ref \<noteq> 0 \<Longrightarrow> ref \<in> dom (stepTracker (exec (fst st')))"
  using assms(2) advances_runChain_loop [OF assms(1), of fuel ref "[]" st st']
  by (auto simp: Run_entry_def runChain_def CacheV1_Load_def advances_refl
      split: if_splits option.splits)

lemma Run_entry_skip:
  "ref = 0 \<or> ref \<in> dom (stepTracker (exec (fst st))) \<Longrightarrow> Run_entry env fuel ref st = Inr st"
  by (cases fuel) (auto simp: Run_entry_def runChain_def CacheV1_Load_def split: option.splits)

lemma forEach_Run_entry_tracks:
  assumes "env_advances env"
  shows "forEach (Run_entry env fuel) refs st = Inr st' \<Longrightarrow>
         advances st st' \<and> (\<forall>ref \<in> set refs. ref \<noteq> 0 \<longrightarrow> ref \<in> dom (stepTracker (exec (fst st'))))"
proof (induction refs arbitrary: st)
  case Nil
  then show ?case by (simp add: advances_refl)
next
  case (Cons ref refs)
  from Cons.prems obtain st1 where e: "Run_entry env fuel ref st = Inr st1"
    and r: "forEach (Run_entry env fuel) refs st1 = Inr st'"
    by (auto dest!: andThen_Inr)
  have a: "advances st st1" and t: "ref \<noteq> 0 \<Longrightarrow> ref \<in> dom (stepTracker (exec (fst st1)))"
    using advances_Run_entry [OF assms e] by simp_all
  have b: "advances st1 st'"
    and ts: "\<forall>ref \<in> set refs. ref \<noteq> 0 \<longrightarrow> ref \<in> dom (stepTracker (exec (fst st')))"
    using Cons.IH [OF r] by simp_all
  have c: "advances st st'"
    using a b by (rule advances_trans)
  have d: "ref \<noteq> 0 \<Longrightarrow> ref \<in> dom (stepTracker (exec (fst st')))"
    using b t by (rule advances_tracked)
  show ?case
    using c d ts by simp
qed

lemma forEach_Run_entry_skip:
  "\<forall>ref \<in> set refs. ref = 0 \<or> ref \<in> dom (stepTracker (exec (fst st))) \<Longrightarrow>
   forEach (Run_entry env fuel) refs st = Inr st"
  by (induction refs) (simp_all add: Run_entry_skip andThen_def)

lemma Run_refs_sorted: "sorted (rev (Run_refs c))"
  by (simp add: Run_refs_def)

lemma Run_refs_set: "set (Run_refs c) = fst ` set (callbackPoints (exec c))"
  by (simp add: Run_refs_def map_keys_def)


text \<open>
  C4. \<^verbatim>\<open>Run\<close> walks the refs of the callback record in descending order; a ref that is
  in the step-tracker is skipped; every pass of the chain walk marks its ref in the
  step-tracker. When the functions of the environment never remove a ref from the
  step-tracker nor change the callback record, and \<^verbatim>\<open>Run\<close> has returned, every ref of
  the callback record other than 0 is in the step-tracker, and a second \<^verbatim>\<open>Run\<close>, with
  any fuel, returns the state as it is: it walks no chain and calls no callback.
\<close>

theorem Run_twice:
  assumes "env_advances env" and "Run env fuel st = Inr st1"
  shows "sorted (rev (Run_refs (fst st)))
       \<and> set (Run_refs (fst st)) = fst ` set (callbackPoints (exec (fst st)))
       \<and> (\<forall>ref \<in> dom (stepTracker (exec (fst st))). Run_entry env fuel ref st = Inr st)
       \<and> (\<forall>r remaining s s' nx. runChain_step env r remaining s = Inr (s', nx) \<longrightarrow>
             r \<in> dom (stepTracker (exec (fst s'))))
       \<and> (\<forall>ref \<in> set (Run_refs (fst st)). ref \<noteq> 0 \<longrightarrow> ref \<in> dom (stepTracker (exec (fst st1))))
       \<and> Run env fuel2 st1 = Inr st1"
proof -
  have run: "forEach (Run_entry env fuel) (Run_refs (fst st)) st = Inr st1"
    using assms(2) by (simp add: Run_def)
  have adv: "advances st st1"
    and tracked: "\<forall>ref \<in> set (Run_refs (fst st)). ref \<noteq> 0 \<longrightarrow> ref \<in> dom (stepTracker (exec (fst st1)))"
    using forEach_Run_entry_tracks [OF assms(1) run] by simp_all
  have same: "Run_refs (fst st1) = Run_refs (fst st)"
    using adv by (simp add: Run_refs_def advances_def)
  have again: "Run env fuel2 st1 = Inr st1"
    unfolding Run_def same
    by (rule forEach_Run_entry_skip) (use tracked in blast)
  have skip: "\<forall>ref \<in> dom (stepTracker (exec (fst st))). Run_entry env fuel ref st = Inr st"
    by (simp add: Run_entry_skip)
  have marks: "\<forall>r remaining s s' nx. runChain_step env r remaining s = Inr (s', nx) \<longrightarrow>
             r \<in> dom (stepTracker (exec (fst s')))"
    using advances_runChain_step(2) [OF assms(1)] by blast
  show ?thesis
    using Run_refs_sorted Run_refs_set skip marks tracked again by blast
qed

lemma sample_env_advances: "env_advances sample_env"
  by (auto simp: env_advances_def action_advances_def sample_env_def sample_functions_def
      advances_def cache_Store_def upd_def split: option.splits if_splits)

lemma two_refs_Run:
  "Run sample_env 3 (two_refs, []) =
     Inr (two_refs_done, [\<lparr>Data = Some os_value, CodeID = ''chk1''\<rparr>,
                          \<lparr>Data = Some os_value, CodeID = ''chk2''\<rparr>])"
  by (simp add: Run_def Run_refs_def map_keys_def two_refs_def two_refs_done_def sample_exec_def
      Run_entry_def CacheV1_Load_def CacheV1_Store_def runChain_def numeral_3_eq_3
      runChain_step_def runChain_eval_def runChain_report_def runChain_next_def
      stepTracker_Store_def cache_Store_def upd_def runRef_def program_def resource_chunk_def
      bound_chunk_def runChunk_def runFunction_def runGlobalFunction_def createResource_def
      connectRef_def CallsV1_Store_def CallsV1_Load_def call_callback_def andThen_def
      sample_env_def sample_functions_def os_value_def fun_upd_twist)


theorem Run_twice_witness:
  "env_advances sample_env
   \<and> Run sample_env 3 (two_refs, []) =
       Inr (two_refs_done, [\<lparr>Data = Some os_value, CodeID = ''chk1''\<rparr>,
                            \<lparr>Data = Some os_value, CodeID = ''chk2''\<rparr>])
   \<and> Run_refs two_refs = [2, 1]
   \<and> Run sample_env 3 (two_refs_done, [\<lparr>Data = Some os_value, CodeID = ''chk1''\<rparr>,
                                         \<lparr>Data = Some os_value, CodeID = ''chk2''\<rparr>]) =
       Inr (two_refs_done, [\<lparr>Data = Some os_value, CodeID = ''chk1''\<rparr>,
                            \<lparr>Data = Some os_value, CodeID = ''chk2''\<rparr>])"
proof -
  have refs: "Run_refs two_refs = [2, 1]"
    by (simp add: Run_refs_def map_keys_def two_refs_def sample_exec_def)
  show ?thesis
    using Run_twice [OF sample_env_advances two_refs_Run, of 3] sample_env_advances two_refs_Run refs
    by simp
qed


end
